theory Spec2Isabelle
  imports Complex_Main "HOL-Library.Multiset"
begin

section \<open>Decision-tree regression pipeline (DecisionTreeRegression.py)\<close>

text \<open>
  The script is a linear pipeline over a data-processing engine: it loads a table of
  sensor readings, turns the UNIX timestamp into month, day and a three-hour range,
  assembles a feature vector, splits the rows, trains or loads a decision tree and
  scores a new reading.  The script's own functions are embedded below one by one.
  What the engine and the machine-learning library compute (calendar fields, random
  draws, training, serialisation, prediction) is not code of the script: it enters the
  model as the fields of a record \<open>engine\<close>, and the theorems hold for every engine
  unless they say otherwise.
\<close>

subsection \<open>Exceptions and results\<close>

text \<open>
  Every exception of the run is an instance of Python's \<open>Exception\<close>; the ones the
  script itself can provoke are named, the engine's own failures carry their message.
\<close>

datatype exc =
    IndexError
  | TypeError
  | ValueError
  | AttributeError
  | AnalysisException
  | IllegalArgumentException
  | EngineFailure string

definition and_then :: "exc + 'a \<Rightarrow> ('a \<Rightarrow> exc + 'b) \<Rightarrow> exc + 'b" where
  "and_then m f = (case m of Inl e \<Rightarrow> Inl e | Inr x \<Rightarrow> f x)"

subsection \<open>Dataframes\<close>

text \<open>
  A cell is null, an integer, a double (a real number here: rounding of floating point is
  not modelled), a string, a timestamp (seconds since the epoch) or a vector.  A row maps
  the names of its columns to cells; a dataframe is the ordered list of its column names
  and the list of its rows.  Column names are compared exactly.
\<close>

datatype val =
    Null
  | IntV int
  | DoubleV real
  | StrV string
  | TsV int
  | VecV "val list"

type_synonym row = "string \<rightharpoonup> val"

record frame =
  columns :: "string list"
  rows :: "row list"

datatype dtype = IntegerType | DoubleType

text \<open>The column expressions the script builds.\<close>

datatype expr =
    Col string
  | Lit val
  | Divide expr expr
  | Cast expr dtype
  | Floor expr
  | FromUnixtime expr
  | ToTimestamp expr
  | Month expr
  | DayOfMonth expr
  | Hour expr

subsection \<open>The engine\<close>

text \<open>
  \<open>'m\<close> is the type of trained models, \<open>'art\<close> the type of what a saved model is on
  disk.  The calendar fields are those of the session's time zone.  \<open>draw seed i\<close> is the
  number in \<open>[0, 1)\<close> the split sampler draws for row \<open>i\<close> under a seed.
  \<open>construct l\<close> is the exception, if any, that building the regressor, the grid, the
  evaluator and the cross-validator for label \<open>l\<close> raises; \<open>fit cv df\<close> is the best
  model of the cross-validation, or the exception training raises.
\<close>

record regressor =
  featuresCol :: string
  labelCol :: "string option"

record evaluator =
  predictionCol :: string
  evLabelCol :: "string option"
  metricName :: string

record crossvalidator =
  estimator :: regressor
  estimatorParamMaps :: "(nat \<times> nat) list"
  cvEvaluator :: evaluator
  numFolds :: nat
  parallelism :: nat

record ('m, 'art) engine =
  parse_double :: "string \<Rightarrow> real option"
  from_unixtime :: "int \<Rightarrow> string"
  to_timestamp :: "string \<Rightarrow> int option"
  month :: "int \<Rightarrow> int"
  dayofmonth :: "int \<Rightarrow> int"
  hour :: "int \<Rightarrow> int"
  draw :: "int \<Rightarrow> nat \<Rightarrow> real"
  construct :: "string option \<Rightarrow> exc option"
  fit :: "crossvalidator \<Rightarrow> frame \<Rightarrow> exc + 'm"
  write_model :: "'m \<Rightarrow> exc + 'art"
  read_model :: "'art \<Rightarrow> exc + 'm"
  predict :: "'m \<Rightarrow> val \<Rightarrow> real"
  evaluate :: "evaluator \<Rightarrow> frame \<Rightarrow> exc + real"
  toDebugString :: "'m \<Rightarrow> string"
  featureImportances :: "'m \<Rightarrow> real list"

subsection \<open>Evaluating a column expression on a row\<close>

definition truncate :: "real \<Rightarrow> int" where
  "truncate x = (if x < 0 then \<lceil>x\<rceil> else \<lfloor>x\<rfloor>)"

definition as_double :: "('m, 'art) engine \<Rightarrow> val \<Rightarrow> real option" where
  "as_double eng v =
     (case v of
        IntV n \<Rightarrow> Some (of_int n)
      | DoubleV d \<Rightarrow> Some d
      | StrV s \<Rightarrow> parse_double eng s
      | TsV t \<Rightarrow> Some (of_int t)
      | _ \<Rightarrow> None)"

definition as_long :: "('m, 'art) engine \<Rightarrow> val \<Rightarrow> int option" where
  "as_long eng v =
     (case v of
        IntV n \<Rightarrow> Some n
      | DoubleV d \<Rightarrow> Some (truncate d)
      | StrV s \<Rightarrow> map_option truncate (parse_double eng s)
      | TsV t \<Rightarrow> Some t
      | _ \<Rightarrow> None)"

definition as_timestamp :: "('m, 'art) engine \<Rightarrow> val \<Rightarrow> int option" where
  "as_timestamp eng v =
     (case v of
        TsV t \<Rightarrow> Some t
      | StrV s \<Rightarrow> to_timestamp eng s
      | _ \<Rightarrow> None)"

definition field_of :: "('m, 'art) engine \<Rightarrow> (int \<Rightarrow> int) \<Rightarrow> val \<Rightarrow> val" where
  "field_of eng f v = (case as_timestamp eng v of Some t \<Rightarrow> IntV (f t) | None \<Rightarrow> Null)"

fun eval :: "('m, 'art) engine \<Rightarrow> row \<Rightarrow> expr \<Rightarrow> val" where
  "eval eng r (Col c) = (case r c of Some v \<Rightarrow> v | None \<Rightarrow> Null)"
| "eval eng r (Lit v) = v"
| "eval eng r (Divide a b) =
     (case (as_double eng (eval eng r a), as_double eng (eval eng r b)) of
        (Some x, Some y) \<Rightarrow> (if y = 0 then Null else DoubleV (x / y))
      | _ \<Rightarrow> Null)"
| "eval eng r (Cast a IntegerType) =
     (case as_long eng (eval eng r a) of Some n \<Rightarrow> IntV n | None \<Rightarrow> Null)"
| "eval eng r (Cast a DoubleType) =
     (case as_double eng (eval eng r a) of Some d \<Rightarrow> DoubleV d | None \<Rightarrow> Null)"
| "eval eng r (Floor a) =
     (case eval eng r a of
        DoubleV d \<Rightarrow> IntV \<lfloor>d\<rfloor>
      | IntV n \<Rightarrow> IntV n
      | _ \<Rightarrow> Null)"
| "eval eng r (FromUnixtime a) =
     (case as_long eng (eval eng r a) of
        Some n \<Rightarrow> StrV (from_unixtime eng n)
      | None \<Rightarrow> Null)"
| "eval eng r (ToTimestamp a) =
     (case as_timestamp eng (eval eng r a) of Some t \<Rightarrow> TsV t | None \<Rightarrow> Null)"
| "eval eng r (Month a) = field_of eng (month eng) (eval eng r a)"
| "eval eng r (DayOfMonth a) = field_of eng (dayofmonth eng) (eval eng r a)"
| "eval eng r (Hour a) = field_of eng (hour eng) (eval eng r a)"

fun refs :: "expr \<Rightarrow> string list" where
  "refs (Col c) = [c]"
| "refs (Lit v) = []"
| "refs (Divide a b) = refs a @ refs b"
| "refs (Cast a t) = refs a"
| "refs (Floor a) = refs a"
| "refs (FromUnixtime a) = refs a"
| "refs (ToTimestamp a) = refs a"
| "refs (Month a) = refs a"
| "refs (DayOfMonth a) = refs a"
| "refs (Hour a) = refs a"

subsection \<open>Dataframe operations\<close>

text \<open>
  \<open>df[name]\<close> raises when the dataframe has no such column.  \<open>withColumn\<close> replaces
  the column of that name where it stands, or appends a new one; an expression over a
  column the dataframe lacks is refused.  \<open>drop\<close> of an absent column changes nothing.
\<close>

definition getitem :: "frame \<Rightarrow> string \<Rightarrow> exc + expr" where
  "getitem df name =
     (if name \<in> set (columns df) then Inr (Col name) else Inl AnalysisException)"

definition withColumn ::
  "('m, 'art) engine \<Rightarrow> string \<Rightarrow> expr \<Rightarrow> frame \<Rightarrow> exc + frame" where
  "withColumn eng name e df =
     (if set (refs e) \<subseteq> set (columns df)
      then Inr \<lparr>columns = (if name \<in> set (columns df) then columns df
                           else columns df @ [name]),
                rows = map (\<lambda>r. r(name \<mapsto> eval eng r e)) (rows df)\<rparr>
      else Inl AnalysisException)"

definition drop_column :: "expr \<Rightarrow> frame \<Rightarrow> frame" where
  "drop_column e df =
     (case e of
        Col name \<Rightarrow> \<lparr>columns = removeAll name (columns df),
                      rows = map (\<lambda>r. r(name := None)) (rows df)\<rparr>
      | _ \<Rightarrow> df)"

subsection \<open>filterTimestamp\<close>

text \<open>
  The three statements of \<open>filterTimestamp\<close>, in order: the conversion of the UNIX
  timestamp (milliseconds) to a date string and back to a timestamp; the extraction of
  month, day and hour, dropping both timestamp columns; the three-hour range, dropping
  the hour.  The function has no exception handler.
\<close>

definition filterTimestamp_convert :: "('m, 'art) engine \<Rightarrow> frame \<Rightarrow> exc + frame" where
  "filterTimestamp_convert eng dataDf =
     and_then (getitem dataDf ''timestamp'') (\<lambda>ts.
     and_then (withColumn eng ''timestamp''
                 (FromUnixtime (Divide ts (Lit (IntV 1000)))) dataDf) (\<lambda>d.
     withColumn eng ''timestamp2'' (ToTimestamp (Col ''timestamp'')) d))"

definition filterTimestamp_extract :: "('m, 'art) engine \<Rightarrow> frame \<Rightarrow> exc + frame" where
  "filterTimestamp_extract eng dataDf =
     and_then (getitem dataDf ''timestamp2'') (\<lambda>t1.
     and_then (withColumn eng ''month'' (Month t1) dataDf) (\<lambda>d1.
     and_then (getitem dataDf ''timestamp2'') (\<lambda>t2.
     and_then (withColumn eng ''day'' (DayOfMonth t2) d1) (\<lambda>d2.
     and_then (getitem dataDf ''timestamp2'') (\<lambda>t3.
     and_then (withColumn eng ''hour'' (Hour t3) d2) (\<lambda>d3.
     and_then (getitem dataDf ''timestamp'') (\<lambda>c1.
     and_then (getitem dataDf ''timestamp2'') (\<lambda>c2.
     Inr (drop_column c2 (drop_column c1 d3))))))))))"

definition filterTimestamp_range :: "('m, 'art) engine \<Rightarrow> frame \<Rightarrow> exc + frame" where
  "filterTimestamp_range eng dataDf =
     and_then (getitem dataDf ''hour'') (\<lambda>h.
     and_then (withColumn eng ''hour_range''
                 (Floor (Divide (Cast h IntegerType) (Lit (IntV 3)))) dataDf) (\<lambda>d.
     and_then (getitem dataDf ''hour'') (\<lambda>c.
     Inr (drop_column c d))))"

definition filterTimestamp :: "('m, 'art) engine \<Rightarrow> frame \<Rightarrow> exc + frame" where
  "filterTimestamp eng dataDf =
     and_then (filterTimestamp_convert eng dataDf) (\<lambda>d1.
     and_then (filterTimestamp_extract eng d1) (\<lambda>d2.
     filterTimestamp_range eng d2))"

subsection \<open>The world of a run\<close>

text \<open>
  What a run reads and writes outside its own variables: the command line, whether the
  engine's context starts, what the two input files load as, the seed the engine picks
  for the random split, the directory of saved models (a flat store from path to
  artifact), the console, and a journal of the calls made on the vector assembler, on
  the trainer and on the model store.
\<close>

datatype out =
    Line string
  | Traceback exc
  | Message exc
  | Schema "string list"
  | Describe frame
  | Table frame
  | RMSE real
  | Importance string real

datatype action = Assemble "string list" | Fit | Save string | Load string

record 'art world =
  argv :: "string list"
  spark_context :: "exc option"
  readings_csv :: "exc + frame"
  newReading_json :: "exc + frame"
  seed :: int
  trained_models :: "string \<rightharpoonup> 'art"
  stdout :: "out list"
  journal :: "action list"

text \<open>
  A statement of the script takes the world and gives a value or the exception it raised,
  and the world as it left it.
\<close>

type_synonym ('a, 'art) py = "'art world \<Rightarrow> (exc + 'a) \<times> 'art world"

definition ret :: "'a \<Rightarrow> ('a, 'art) py" where
  "ret x w = (Inr x, w)"

definition raise :: "exc \<Rightarrow> ('a, 'art) py" where
  "raise e w = (Inl e, w)"

definition lift :: "exc + 'a \<Rightarrow> ('a, 'art) py" where
  "lift r w = (r, w)"

definition bind :: "('a, 'art) py \<Rightarrow> ('a \<Rightarrow> ('b, 'art) py) \<Rightarrow> ('b, 'art) py" where
  "bind m f w = (case m w of (Inl e, w') \<Rightarrow> (Inl e, w') | (Inr x, w') \<Rightarrow> f x w')"

definition print :: "out \<Rightarrow> (unit, 'art) py" where
  "print x w = (Inr (), w\<lparr>stdout := stdout w @ [x]\<rparr>)"

definition record_action :: "action \<Rightarrow> (unit, 'art) py" where
  "record_action a w = (Inr (), w\<lparr>journal := journal w @ [a]\<rparr>)"

text \<open>
  \<open>try: body except Exception as e: print(traceback.format_exc()); print(e); print(msg)\<close>:
  the handler has no \<open>return\<close>, so the function returns \<open>None\<close>.
\<close>

definition guarded :: "string \<Rightarrow> ('a option, 'art) py \<Rightarrow> ('a option, 'art) py" where
  "guarded msg body w =
     (case body w of
        (Inl e, w') \<Rightarrow>
          (Inr None, w'\<lparr>stdout := stdout w' @ [Traceback e, Message e, Line msg]\<rparr>)
      | (Inr x, w') \<Rightarrow> (Inr x, w'))"

text \<open>\<open>sys.argv[1]\<close>\<close>

definition argv1 :: "(string, 'art) py" where
  "argv1 w = (if 1 < length (argv w) then (Inr (argv w ! 1), w) else (Inl IndexError, w))"

text \<open>\<open>a, b = r\<close> where \<open>r\<close> may be \<open>None\<close>\<close>

definition unpack :: "('a \<times> 'b) option \<Rightarrow> ('a \<times> 'b, 'art) py" where
  "unpack r = (case r of None \<Rightarrow> raise TypeError | Some p \<Rightarrow> ret p)"

subsection \<open>setLabel\<close>

definition setLabel :: "(string option, 'art) py" where
  "setLabel =
     guarded ''Label Setting Error -> Cannot retrieve the label''
       (bind argv1 (\<lambda>label.
        bind (print (Line (''Label -> '' @ label))) (\<lambda>_.
        ret (Some label))))"

subsection \<open>initialize\<close>

text \<open>
  \<open>na.fill(value, subset)\<close> puts the value in the null cells of the named columns
  (which are numeric here: the one column named has just been cast to double).
\<close>

definition na_fill :: "real \<Rightarrow> string list \<Rightarrow> frame \<Rightarrow> frame" where
  "na_fill v names df =
     df\<lparr>rows := map (\<lambda>r c. if c \<in> set names \<and> r c = Some Null then Some (DoubleV v)
                             else r c) (rows df)\<rparr>"

definition start_context :: "(unit, 'art) py" where
  "start_context w =
     (case spark_context w of Some e \<Rightarrow> (Inl e, w) | None \<Rightarrow> (Inr (), w))"

definition read_csv :: "(frame, 'art) py" where
  "read_csv w = (readings_csv w, w)"

definition read_json :: "(frame, 'art) py" where
  "read_json w = (newReading_json w, w)"

definition initialize :: "('m, 'art) engine \<Rightarrow> ((frame \<times> frame) option, 'art) py" where
  "initialize eng =
     bind start_context (\<lambda>_.
     guarded ''Dataset Loading Error -> Cannot read the label''
       (bind read_csv (\<lambda>dataDf.
        bind read_json (\<lambda>newReading.
        bind argv1 (\<lambda>a.
        bind argv1 (\<lambda>b.
        bind (lift (withColumn eng a (Cast (Col b) DoubleType) newReading)) (\<lambda>newReading.
        bind argv1 (\<lambda>c.
        ret (Some (dataDf, na_fill 0 [c] newReading))))))))))"

subsection \<open>cacheDataframe\<close>

definition cacheDataframe :: "frame \<Rightarrow> (unit, 'art) py" where
  "cacheDataframe dataDf =
     bind (print (Schema (columns dataDf))) (\<lambda>_.
     print (Describe dataDf))"

subsection \<open>vectorizeDataframe\<close>

text \<open>
  The assembler refuses an input column the dataframe lacks, an input column that is
  neither numeric nor a vector, and an output column that is already there; otherwise it
  appends the column \<open>features\<close>, whose cell holds the cells of the input columns in
  order.
\<close>

definition assemblable :: "val \<Rightarrow> bool" where
  "assemblable v = (case v of StrV _ \<Rightarrow> False | TsV _ \<Rightarrow> False | _ \<Rightarrow> True)"

definition assemble :: "string list \<Rightarrow> string \<Rightarrow> frame \<Rightarrow> exc + frame" where
  "assemble inputCols outputCol df =
     (if set inputCols \<subseteq> set (columns df) \<and> outputCol \<notin> set (columns df)
         \<and> (\<forall>r \<in> set (rows df). \<forall>c \<in> set inputCols.
               case r c of Some v \<Rightarrow> assemblable v | None \<Rightarrow> True)
      then Inr \<lparr>columns = columns df @ [outputCol],
                rows = map (\<lambda>r. r(outputCol \<mapsto>
                         VecV (map (\<lambda>c. case r c of Some v \<Rightarrow> v | None \<Rightarrow> Null) inputCols)))
                       (rows df)\<rparr>
      else Inl IllegalArgumentException)"

definition assembler_transform ::
  "string list \<Rightarrow> string \<Rightarrow> frame \<Rightarrow> (frame, 'art) py" where
  "assembler_transform inputCols outputCol df =
     bind (record_action (Assemble inputCols)) (\<lambda>_. lift (assemble inputCols outputCol df))"

definition vectorizeDataframe :: "frame \<Rightarrow> string list \<Rightarrow> (frame, 'art) py" where
  "vectorizeDataframe dataDf features = assembler_transform features ''features'' dataDf"

subsection \<open>splitDataframe\<close>

text \<open>
  \<open>randomSplit(weights)\<close>: the weights are normalised and summed up to the bounds
  \<open>0 = b\<^sub>0 \<le> b\<^sub>1 \<le> \<dots>\<close>; split \<open>k\<close> keeps, in order, the rows whose draw lies in
  \<open>[b\<^sub>k, b\<^sub>k\<^sub>+\<^sub>1)\<close>.  Every split sees the same draw for the same row.
\<close>

fun cumulative :: "real \<Rightarrow> real list \<Rightarrow> real list" where
  "cumulative acc [] = [acc]"
| "cumulative acc (x # xs) = acc # cumulative (acc + x) xs"

definition sample :: "(nat \<Rightarrow> real) \<Rightarrow> real \<times> real \<Rightarrow> frame \<Rightarrow> frame" where
  "sample d b df =
     df\<lparr>rows := map snd (filter (\<lambda>(i, r). fst b \<le> d i \<and> d i < snd b)
                           (enumerate 0 (rows df)))\<rparr>"

definition randomSplit :: "(nat \<Rightarrow> real) \<Rightarrow> real list \<Rightarrow> frame \<Rightarrow> frame list" where
  "randomSplit d weights df =
     (let bounds = cumulative 0 (map (\<lambda>x. x / sum_list weights) weights)
      in map (\<lambda>b. sample d b df) (zip bounds (tl bounds)))"

definition splitDataframe :: "('m, 'art) engine \<Rightarrow> frame \<Rightarrow> (frame \<times> frame, 'art) py" where
  "splitDataframe eng dataDf w =
     (let splits = randomSplit (draw eng (seed w)) [7 / 10, 3 / 10] dataDf;
          trainDf = splits ! 0;
          testDf = splits ! 1
      in (Inr (trainDf, testDf), w))"

subsection \<open>decisionTreeRegression\<close>

definition decisionTreeRegression ::
  "('m, 'art) engine \<Rightarrow> string option \<Rightarrow> ((crossvalidator \<times> evaluator) option, 'art) py" where
  "decisionTreeRegression eng label =
     guarded ''Model Creation Error -> Cannot perform the creation of the model''
       (bind (lift (case construct eng label of Some e \<Rightarrow> Inl e | None \<Rightarrow> Inr ())) (\<lambda>_.
        let dt = \<lparr>featuresCol = ''features'', labelCol = label\<rparr>;
            dtParamGrid = List.product [2, 5, 10, 20, 30] [10, 20, 40, 80, 100];
            dtEvaluator = \<lparr>predictionCol = ''prediction'', evLabelCol = label,
                           metricName = ''rmse''\<rparr>;
            dtcv = \<lparr>estimator = dt, estimatorParamMaps = dtParamGrid,
                    cvEvaluator = dtEvaluator, numFolds = 5, parallelism = 3\<rparr>
        in ret (Some (dtcv, dtEvaluator))))"

subsection \<open>trainOrLoad\<close>

text \<open>\<open>"..." + label\<close> raises \<open>TypeError\<close> when the label is \<open>None\<close>.\<close>

definition concat_label :: "string \<Rightarrow> string option \<Rightarrow> (string, 'art) py" where
  "concat_label s label = (case label of None \<Rightarrow> raise TypeError | Some l \<Rightarrow> ret (s @ l))"

definition path_exists :: "string \<Rightarrow> (bool, 'art) py" where
  "path_exists path w = (Inr (path \<in> dom (trained_models w)), w)"

text \<open>
  \<open>dtcv.fit(trainDf).bestModel\<close>, \<open>bestModel.write().overwrite().save(path)\<close> and
  \<open>DecisionTreeRegressionModel.load(path)\<close>.  Saving replaces whatever the store held
  at the path.
\<close>

definition fit_best :: "('m, 'art) engine \<Rightarrow> crossvalidator \<Rightarrow> frame \<Rightarrow> ('m, 'art) py" where
  "fit_best eng dtcv trainDf =
     bind (record_action Fit) (\<lambda>_. lift (fit eng dtcv trainDf))"

definition save_overwrite :: "('m, 'art) engine \<Rightarrow> 'm \<Rightarrow> string \<Rightarrow> (unit, 'art) py" where
  "save_overwrite eng m path =
     bind (record_action (Save path)) (\<lambda>_ w.
       case write_model eng m of
         Inl e \<Rightarrow> (Inl e, w)
       | Inr a \<Rightarrow> (Inr (), w\<lparr>trained_models := (trained_models w)(path \<mapsto> a)\<rparr>))"

definition load_model :: "('m, 'art) engine \<Rightarrow> string \<Rightarrow> ('m, 'art) py" where
  "load_model eng path =
     bind (record_action (Load path)) (\<lambda>_ w.
       case trained_models w path of
         None \<Rightarrow> (Inl (EngineFailure ''Input path does not exist''), w)
       | Some a \<Rightarrow> (read_model eng a, w))"

definition trainOrLoad ::
  "('m, 'art) engine \<Rightarrow> string option \<Rightarrow> crossvalidator \<Rightarrow> frame \<Rightarrow> ('m option, 'art) py" where
  "trainOrLoad eng label dtcv trainDf =
     bind (concat_label ''./TrainedModels/DecisionTreeBestModels/'' label) (\<lambda>modelPath.
     bind (path_exists modelPath) (\<lambda>ex.
     if \<not> ex then
       guarded ''Model Training Error -> Cannot perform the training of the model''
         (bind (fit_best eng dtcv trainDf) (\<lambda>bestModel.
          bind (concat_label ''./TrainedModels/DecisionTreeBestModels/'' label) (\<lambda>path.
          bind (save_overwrite eng bestModel path) (\<lambda>_.
          bind (print (Line ''Model Saved'')) (\<lambda>_.
          ret (Some bestModel))))))
     else
       guarded ''Model Creation Error -> Cannot perform the creation of the model''
         (bind (concat_label ''./TrainedModels/DecisionTreeBestModels/'' label) (\<lambda>path.
          bind (load_model eng path) (\<lambda>bestModel.
          bind (print (Line ''Model Loaded'')) (\<lambda>_.
          ret (Some bestModel)))))))"

subsection \<open>predictAndEvaluate\<close>

text \<open>An attribute or method of \<open>None\<close> raises \<open>AttributeError\<close>.\<close>

definition attr :: "'a option \<Rightarrow> ('a, 'art) py" where
  "attr x = (case x of None \<Rightarrow> raise AttributeError | Some m \<Rightarrow> ret m)"

text \<open>
  \<open>model.transform(df)\<close> needs the column \<open>features\<close> and appends the column
  \<open>prediction\<close>; \<open>select\<close> keeps the named columns, which must exist; \<open>show(n)\<close>
  prints the first \<open>n\<close> rows (twenty when no number is given).
\<close>

definition transform :: "('m, 'art) engine \<Rightarrow> 'm \<Rightarrow> frame \<Rightarrow> exc + frame" where
  "transform eng m df =
     (if ''features'' \<in> set (columns df) \<and> ''prediction'' \<notin> set (columns df)
      then Inr \<lparr>columns = columns df @ [''prediction''],
                rows = map (\<lambda>r. r(''prediction'' \<mapsto>
                         DoubleV (predict eng m
                           (case r ''features'' of Some v \<Rightarrow> v | None \<Rightarrow> Null))))
                       (rows df)\<rparr>
      else Inl IllegalArgumentException)"

definition select :: "string option list \<Rightarrow> frame \<Rightarrow> exc + frame" where
  "select names df =
     (if None \<in> set names then Inl TypeError
      else if set (map the names) \<subseteq> set (columns df)
      then Inr \<lparr>columns = map the names,
                rows = map (\<lambda>r. r |` set (map the names)) (rows df)\<rparr>
      else Inl AnalysisException)"

definition show_rows :: "nat \<Rightarrow> frame \<Rightarrow> (unit, 'art) py" where
  "show_rows n df = print (Table (df\<lparr>rows := take n (rows df)\<rparr>))"

definition predictAndEvaluate ::
  "('m, 'art) engine \<Rightarrow> 'm option \<Rightarrow> string option \<Rightarrow> frame \<Rightarrow> evaluator \<Rightarrow> frame
     \<Rightarrow> (unit option, 'art) py" where
  "predictAndEvaluate eng bestModel label testDf dtEvaluator nrFilteredDf =
     guarded ''Model Prediction Error -> Cannot perform the prediction on the model''
       (bind (attr bestModel) (\<lambda>m.
        bind (lift (transform eng m testDf)) (\<lambda>dtPredictions.
        bind (lift (select [Some ''prediction'', label, Some ''features''] dtPredictions)) (\<lambda>s1.
        bind (show_rows 5 s1) (\<lambda>_.
        bind (attr bestModel) (\<lambda>m.
        bind (lift (transform eng m nrFilteredDf)) (\<lambda>nrPredictions.
        bind (lift (select [Some ''prediction'', label, Some ''features''] nrPredictions)) (\<lambda>s2.
        bind (show_rows 20 s2) (\<lambda>_.
        bind (lift (evaluate eng dtEvaluator dtPredictions)) (\<lambda>rmse.
        bind (print (RMSE rmse)) (\<lambda>_.
        bind (attr bestModel) (\<lambda>m.
        bind (print (Line (''Learned classification tree model:'' @ [CHR 0x0A]
                             @ toDebugString eng m))) (\<lambda>_.
        ret None)))))))))))))"

subsection \<open>featureImportance\<close>

fun print_all :: "out list \<Rightarrow> (unit, 'art) py" where
  "print_all [] = ret ()"
| "print_all (x # xs) = bind (print x) (\<lambda>_. print_all xs)"

definition featureImportance ::
  "('m, 'art) engine \<Rightarrow> 'm option \<Rightarrow> string list \<Rightarrow> (unit, 'art) py" where
  "featureImportance eng bestModel features =
     bind (print (Line ''Feature Importances:'')) (\<lambda>_.
     bind (attr bestModel) (\<lambda>m.
     print_all (map (\<lambda>(feature, importance). Importance feature importance)
                  (zip features (featureImportances eng m)))))"

subsection \<open>main\<close>

text \<open>
  \<open>features.remove(label)\<close> takes the first occurrence of the label out of the list and
  raises \<open>ValueError\<close> when there is none; \<open>None\<close> equals no column name.
\<close>

definition list_remove :: "string list \<Rightarrow> string option \<Rightarrow> exc + string list" where
  "list_remove xs x =
     (case x of
        None \<Rightarrow> Inl ValueError
      | Some l \<Rightarrow> if l \<in> set xs then Inr (remove1 l xs) else Inl ValueError)"

definition main :: "('m, 'art) engine \<Rightarrow> (unit, 'art) py" where
  "main eng =
     bind (initialize eng) (\<lambda>r.
     bind (unpack r) (\<lambda>(dataDf, newReading).
     bind setLabel (\<lambda>label.
     bind (lift (filterTimestamp eng dataDf)) (\<lambda>filteredDf.
     bind (lift (list_remove (columns filteredDf) label)) (\<lambda>features.
     bind (cacheDataframe filteredDf) (\<lambda>_.
     bind (lift (filterTimestamp eng newReading)) (\<lambda>nrFilteredDf.
     bind (vectorizeDataframe filteredDf features) (\<lambda>filteredDf.
     bind (splitDataframe eng filteredDf) (\<lambda>(trainSplit, testSplit).
     bind (vectorizeDataframe nrFilteredDf features) (\<lambda>nrFilteredDf.
     bind (decisionTreeRegression eng label) (\<lambda>r.
     bind (unpack r) (\<lambda>(dtcv, dtEvaluator).
     bind (trainOrLoad eng label dtcv trainSplit) (\<lambda>bestModel.
     bind (featureImportance eng bestModel features) (\<lambda>_.
     bind (predictAndEvaluate eng bestModel label testSplit dtEvaluator nrFilteredDf) (\<lambda>_.
     ret ())))))))))))))))"

text \<open>
  For reasoning about \<open>main\<close> in two steps: its lines from \<open>cacheDataframe(filteredDf)\<close>
  to the end, as a function of what the lines before them computed.
\<close>

definition main_tail ::
  "('m, 'art) engine \<Rightarrow> string option \<Rightarrow> frame \<Rightarrow> frame \<Rightarrow> string list \<Rightarrow> (unit, 'art) py" where
  "main_tail eng label filteredDf newReading features =
     bind (cacheDataframe filteredDf) (\<lambda>_.
     bind (lift (filterTimestamp eng newReading)) (\<lambda>nrFilteredDf.
     bind (vectorizeDataframe filteredDf features) (\<lambda>filteredDf.
     bind (splitDataframe eng filteredDf) (\<lambda>(trainSplit, testSplit).
     bind (vectorizeDataframe nrFilteredDf features) (\<lambda>nrFilteredDf.
     bind (decisionTreeRegression eng label) (\<lambda>r.
     bind (unpack r) (\<lambda>(dtcv, dtEvaluator).
     bind (trainOrLoad eng label dtcv trainSplit) (\<lambda>bestModel.
     bind (featureImportance eng bestModel features) (\<lambda>_.
     bind (predictAndEvaluate eng bestModel label testSplit dtEvaluator nrFilteredDf) (\<lambda>_.
     ret ()))))))))))"

text \<open>The script: the run ends at the first exception that \<open>main\<close> lets through.\<close>

definition script :: "('m, 'art) engine \<Rightarrow> (unit, 'art) py" where
  "script eng =
     bind (print (Line ''Decision Tree Regression Test Starting'')) (\<lambda>_.
     bind (main eng) (\<lambda>_.
     print (Line ''Decision Tree Regression Test Finished'')))"

subsection \<open>Decision trees and their store in the ML library\<close>

text \<open>
  The script serialises nothing itself: \<open>bestModel.write().overwrite().save(path)\<close> and
  \<open>DecisionTreeRegressionModel.load(path)\<close> are the library's.  A regression tree is a
  leaf or an internal node with a split, which is a threshold on one feature or a set of
  categories of one feature; every node carries its prediction, its impurity and the
  statistics it was computed from, an internal node also its gain.  A model is a tree
  with an identifier and the number of features.
\<close>

datatype split = CategoricalSplit nat "real list" nat | ContinuousSplit nat real

datatype node =
    LeafNode real real "real list" int
  | InternalNode real real real node node split "real list" int

datatype model = DecisionTreeRegressionModel string node nat

text \<open>
  On disk a model is its metadata and a table with one row per node.  A row holds the
  node's number, its contents, the numbers of its children (\<open>-1\<close> for a leaf) and the
  split as a feature index, a list (the threshold alone, or the categories) and the
  number of categories (\<open>-1\<close> for a threshold).
\<close>

record split_data =
  featureIndex :: int
  leftCategoriesOrThreshold :: "real list"
  numCategories :: int

record node_data =
  nodeId :: int
  prediction :: real
  impurity :: real
  impurityStats :: "real list"
  rawCount :: int
  gain :: real
  leftChild :: int
  rightChild :: int
  splitData :: split_data

record saved_model =
  metadata :: "string \<times> nat"
  data :: "node_data list"

fun toSplitData :: "split \<Rightarrow> split_data" where
  "toSplitData (CategoricalSplit f cats n) =
     \<lparr>featureIndex = int f, leftCategoriesOrThreshold = cats, numCategories = int n\<rparr>"
| "toSplitData (ContinuousSplit f t) =
     \<lparr>featureIndex = int f, leftCategoriesOrThreshold = [t], numCategories = - 1\<rparr>"

definition getSplit :: "split_data \<Rightarrow> exc + split" where
  "getSplit s =
     (if numCategories s \<noteq> - 1
      then Inr (CategoricalSplit (nat (featureIndex s)) (leftCategoriesOrThreshold s)
                  (nat (numCategories s)))
      else case leftCategoriesOrThreshold s of
             [] \<Rightarrow> Inl IndexError
           | t # ts \<Rightarrow> Inr (ContinuousSplit (nat (featureIndex s)) t))"

text \<open>
  The writer numbers the nodes in pre-order from the number it is given and returns the
  rows with the last number used.
\<close>

fun build :: "node \<Rightarrow> int \<Rightarrow> node_data list \<times> int" where
  "build (InternalNode p i g l r s st rc) n =
     (case build l (n + 1) of (leftNodeData, leftIdx) \<Rightarrow>
      case build r (leftIdx + 1) of (rightNodeData, rightIdx) \<Rightarrow>
        (\<lparr>nodeId = n, prediction = p, impurity = i, impurityStats = st, rawCount = rc,
          gain = g, leftChild = nodeId (hd leftNodeData),
          rightChild = nodeId (hd rightNodeData), splitData = toSplitData s\<rparr>
         # (leftNodeData @ rightNodeData), rightIdx))"
| "build (LeafNode p i st rc) n =
     ([\<lparr>nodeId = n, prediction = p, impurity = i, impurityStats = st, rawCount = rc,
        gain = - 1, leftChild = - 1, rightChild = - 1,
        splitData = \<lparr>featureIndex = - 1, leftCategoriesOrThreshold = [],
                      numCategories = - 1\<rparr>\<rparr>], n)"

text \<open>
  The reader sorts the rows by number, checks that the first is 0 and the last is the
  number of rows less one, and builds the nodes from the last row to the first into an
  array indexed by number, so that the children of a node are built before it; the tree
  is the node 0.  A row whose child has not been built, or whose threshold is missing,
  is reported as a failure.
\<close>

definition place :: "node_data \<Rightarrow> (int \<rightharpoonup> node) \<Rightarrow> exc + (int \<rightharpoonup> node)" where
  "place n finalNodes =
     (if leftChild n \<noteq> - 1 then
        (case finalNodes (leftChild n) of
           None \<Rightarrow> Inl (EngineFailure ''child not built'')
         | Some l \<Rightarrow>
        (case finalNodes (rightChild n) of
           None \<Rightarrow> Inl (EngineFailure ''child not built'')
         | Some r \<Rightarrow>
             and_then (getSplit (splitData n)) (\<lambda>s.
               Inr (finalNodes(nodeId n \<mapsto>
                 InternalNode (prediction n) (impurity n) (gain n) l r s
                   (impurityStats n) (rawCount n))))))
      else Inr (finalNodes(nodeId n \<mapsto>
             LeafNode (prediction n) (impurity n) (impurityStats n) (rawCount n))))"

definition buildTreeFromNodes :: "node_data list \<Rightarrow> exc + node" where
  "buildTreeFromNodes ds =
     (let nodes = sort_key nodeId ds in
      if nodes = [] then Inl (EngineFailure ''no nodes'')
      else if nodeId (hd nodes) \<noteq> 0 \<or> nodeId (last nodes) \<noteq> int (length nodes) - 1
      then Inl (EngineFailure ''assertion failed'')
      else and_then (fold (\<lambda>n acc. and_then acc (place n)) (rev nodes) (Inr Map.empty))
             (\<lambda>finalNodes. case finalNodes 0 of
                 None \<Rightarrow> Inl (EngineFailure ''no root'')
               | Some rootNode \<Rightarrow> Inr rootNode))"

definition saveImpl :: "model \<Rightarrow> saved_model" where
  "saveImpl m = (case m of DecisionTreeRegressionModel uid rootNode numFeatures \<Rightarrow>
     \<lparr>metadata = (uid, numFeatures), data = fst (build rootNode 0)\<rparr>)"

definition load :: "saved_model \<Rightarrow> exc + model" where
  "load a = and_then (buildTreeFromNodes (data a)) (\<lambda>rootNode.
     Inr (DecisionTreeRegressionModel (fst (metadata a)) rootNode (snd (metadata a))))"

text \<open>
  A prediction walks the tree: left when the feature is at most the threshold, or is
  one of the categories.  \<open>feature v i\<close> is component \<open>i\<close> of an assembled vector.
\<close>

fun feature :: "val \<Rightarrow> nat \<Rightarrow> real" where
  "feature (VecV xs) i =
     (if i < length xs then (case xs ! i of DoubleV x \<Rightarrow> x | IntV k \<Rightarrow> of_int k | _ \<Rightarrow> 0)
      else 0)"
| "feature _ i = 0"

fun shouldGoLeft :: "split \<Rightarrow> val \<Rightarrow> bool" where
  "shouldGoLeft (CategoricalSplit f cats n) v \<longleftrightarrow> feature v f \<in> set cats"
| "shouldGoLeft (ContinuousSplit f t) v \<longleftrightarrow> feature v f \<le> t"

fun predictImpl :: "node \<Rightarrow> val \<Rightarrow> real" where
  "predictImpl (LeafNode p i st rc) v = p"
| "predictImpl (InternalNode p i g l r s st rc) v =
     (if shouldGoLeft s v then predictImpl l v else predictImpl r v)"

definition predict_model :: "model \<Rightarrow> val \<Rightarrow> real" where
  "predict_model m v = (case m of DecisionTreeRegressionModel uid rootNode numFeatures \<Rightarrow>
     predictImpl rootNode v)"

text \<open>An engine with the library's trees: its models, its store and its predictions.\<close>

definition spark_ml :: "(model, saved_model) engine \<Rightarrow> (model, saved_model) engine" where
  "spark_ml eng =
     eng\<lparr>write_model := (\<lambda>m. Inr (saveImpl m)), read_model := load, predict := predict_model\<rparr>"

subsection \<open>Names used in the statements\<close>

text \<open>
  What \<open>initialize\<close> makes of the new reading for label \<open>l\<close>: the label column cast to
  double, then its null cells filled with 0.  And the path under which \<open>trainOrLoad\<close>
  keeps the model of label \<open>l\<close>.
\<close>

definition cast_label :: "('m, 'art) engine \<Rightarrow> string \<Rightarrow> frame \<Rightarrow> frame" where
  "cast_label eng l n =
     na_fill 0 [l] \<lparr>columns = columns n,
                    rows = map (\<lambda>r. r(l \<mapsto> eval eng r (Cast (Col l) DoubleType))) (rows n)\<rparr>"

definition model_path :: "string \<Rightarrow> string" where
  "model_path l = ''./TrainedModels/DecisionTreeBestModels/'' @ l"

subsection \<open>A sample engine and sample runs\<close>

text \<open>
  For evaluating the script on concrete inputs: an engine whose session runs in UTC
  (proleptic Gregorian calendar, dates printed as \<open>yyyy-MM-dd HH:mm:ss\<close>), whose trainer
  returns a one-leaf tree predicting the number of training rows, and whose store keeps a
  tagged copy of the model.
\<close>

definition civil_from_days :: "int \<Rightarrow> int \<times> int \<times> int" where
  "civil_from_days z0 =
     (let z = z0 + 719468;
          era = z div 146097;
          doe = z mod 146097;
          yoe = (doe - doe div 1460 + doe div 36524 - doe div 146096) div 365;
          doy = doe - (365 * yoe + yoe div 4 - yoe div 100);
          mp = (5 * doy + 2) div 153;
          d = doy - (153 * mp + 2) div 5 + 1;
          m = (if mp < 10 then mp + 3 else mp - 9);
          y = yoe + era * 400 + (if m \<le> 2 then 1 else 0)
      in (y, m, d))"

definition days_from_civil :: "int \<Rightarrow> int \<Rightarrow> int \<Rightarrow> int" where
  "days_from_civil y0 m d =
     (let y = (if m \<le> 2 then y0 - 1 else y0);
          era = y div 400;
          yoe = y mod 400;
          doy = (153 * (if 2 < m then m - 3 else m + 9) + 2) div 5 + d - 1;
          doe = yoe * 365 + yoe div 4 - yoe div 100 + doy
      in era * 146097 + doe - 719468)"

definition digit :: "int \<Rightarrow> char" where
  "digit n = ''0123456789'' ! nat (n mod 10)"

definition two :: "int \<Rightarrow> string" where
  "two n = [digit (n div 10), digit n]"

definition four :: "int \<Rightarrow> string" where
  "four n = [digit (n div 1000), digit (n div 100), digit (n div 10), digit n]"

definition digit_val :: "char \<Rightarrow> int option" where
  "digit_val c = map_of (zip ''0123456789'' [0, 1, 2, 3, 4, 5, 6, 7, 8, 9]) c"

fun decimal :: "int \<Rightarrow> string \<Rightarrow> int option" where
  "decimal a [] = Some a"
| "decimal a (c # cs) =
     (case digit_val c of None \<Rightarrow> None | Some d \<Rightarrow> decimal (10 * a + d) cs)"

definition utc_from_unixtime :: "int \<Rightarrow> string" where
  "utc_from_unixtime s =
     (let (y, m, d) = civil_from_days (s div 86400); t = s mod 86400
      in four y @ ''-'' @ two m @ ''-'' @ two d @ '' '' @ two (t div 3600) @ '':''
         @ two (t div 60 mod 60) @ '':'' @ two (t mod 60))"

definition utc_to_timestamp :: "string \<Rightarrow> int option" where
  "utc_to_timestamp s =
     (if length s = 19 \<and> s ! 4 = CHR ''-'' \<and> s ! 7 = CHR ''-'' \<and> s ! 10 = CHR '' ''
         \<and> s ! 13 = CHR '':'' \<and> s ! 16 = CHR '':''
      then case map (decimal 0) [take 4 s, take 2 (drop 5 s), take 2 (drop 8 s),
                                 take 2 (drop 11 s), take 2 (drop 14 s), take 2 (drop 17 s)] of
             [Some y, Some m, Some d, Some h, Some mi, Some se] \<Rightarrow>
               Some (days_from_civil y m d * 86400 + h * 3600 + mi * 60 + se)
           | _ \<Rightarrow> None
      else None)"

definition utc_month :: "int \<Rightarrow> int" where
  "utc_month t = fst (snd (civil_from_days (t div 86400)))"

definition utc_dayofmonth :: "int \<Rightarrow> int" where
  "utc_dayofmonth t = snd (snd (civil_from_days (t div 86400)))"

definition utc_hour :: "int \<Rightarrow> int" where
  "utc_hour t = t mod 86400 div 3600"

definition sample_engine :: "(int, string \<times> int) engine" where
  "sample_engine =
     \<lparr>parse_double = (\<lambda>s. if s = [] then None else map_option of_int (decimal 0 s)),
      from_unixtime = utc_from_unixtime,
      to_timestamp = utc_to_timestamp,
      month = utc_month,
      dayofmonth = utc_dayofmonth,
      hour = utc_hour,
      draw = (\<lambda>s i. of_int ((s + 7 * int i) mod 10) / 10),
      construct = (\<lambda>l. None),
      fit = (\<lambda>cv df. Inr (int (length (rows df)))),
      write_model = (\<lambda>m. Inr (''tree'', m)),
      read_model = (\<lambda>a. if fst a = ''tree'' then Inr (snd a)
                          else Inl (EngineFailure ''not a tree'')),
      predict = (\<lambda>m v. of_int m),
      evaluate = (\<lambda>ev df. Inr 0),
      toDebugString = (\<lambda>m. ''leaf''),
      featureImportances = (\<lambda>m. [1])\<rparr>"

text \<open>
  Three readings (14 November 2023, 22:13:20, 23:13:20 and, the next day, 00:13:20 UTC)
  and a new reading whose temperature and humidity are missing.
\<close>

definition readings :: frame where
  "readings =
     \<lparr>columns = [''timestamp'', ''temperature'', ''humidity''],
      rows = [[''timestamp'' \<mapsto> IntV 1700000000000, ''temperature'' \<mapsto> IntV 21,
               ''humidity'' \<mapsto> IntV 40],
              [''timestamp'' \<mapsto> IntV 1700003600000, ''temperature'' \<mapsto> IntV 20,
               ''humidity'' \<mapsto> IntV 42],
              [''timestamp'' \<mapsto> IntV 1700007200000, ''temperature'' \<mapsto> IntV 19,
               ''humidity'' \<mapsto> IntV 45]]\<rparr>"

definition newReading0 :: frame where
  "newReading0 =
     \<lparr>columns = [''timestamp'', ''temperature'', ''humidity''],
      rows = [[''timestamp'' \<mapsto> IntV 1700010800000, ''temperature'' \<mapsto> Null,
               ''humidity'' \<mapsto> Null]]\<rparr>"

definition first_run :: "(string \<times> int) world" where
  "first_run =
     \<lparr>argv = [''DecisionTreeRegression.py'', ''temperature''],
      spark_context = None,
      readings_csv = Inr readings,
      newReading_json = Inr newReading0,
      seed = 1,
      trained_models = Map.empty,
      stdout = [],
      journal = []\<rparr>"

text \<open>The same run with no label on the command line.\<close>

definition no_label_run :: "(string \<times> int) world" where
  "no_label_run = first_run\<lparr>argv := [''DecisionTreeRegression.py'']\<rparr>"

text \<open>Readings that already have a column named \<open>hour\<close>.\<close>

definition hourly_readings :: frame where
  "hourly_readings =
     \<lparr>columns = [''timestamp'', ''hour'', ''temperature''],
      rows = [[''timestamp'' \<mapsto> IntV 1700000000000, ''hour'' \<mapsto> IntV 5,
               ''temperature'' \<mapsto> IntV 21]]\<rparr>"

text \<open>The sample run with a label the new reading lacks, and with the label \<open>timestamp\<close>.\<close>

definition unknown_label_run :: "(string \<times> int) world" where
  "unknown_label_run = first_run\<lparr>argv := [''DecisionTreeRegression.py'', ''pressure'']\<rparr>"

definition timestamp_label_run :: "(string \<times> int) world" where
  "timestamp_label_run = first_run\<lparr>argv := [''DecisionTreeRegression.py'', ''timestamp'']\<rparr>"

text \<open>The cross-validator that \<open>decisionTreeRegression\<close> builds for \<open>temperature\<close>.\<close>

definition sample_cv :: crossvalidator where
  "sample_cv =
     \<lparr>estimator = \<lparr>featuresCol = ''features'', labelCol = Some ''temperature''\<rparr>,
      estimatorParamMaps = List.product [2, 5, 10, 20, 30] [10, 20, 40, 80, 100],
      cvEvaluator = \<lparr>predictionCol = ''prediction'', evLabelCol = Some ''temperature'',
                      metricName = ''rmse''\<rparr>,
      numFolds = 5, parallelism = 3\<rparr>"

text \<open>
  Engines that fail where the sample engine succeeds (building the estimator,
  training, scoring), a store holding an artifact that does not load, and a context that
  does not start.
\<close>

definition no_estimator_engine :: "(int, string \<times> int) engine" where
  "no_estimator_engine = sample_engine\<lparr>construct := (\<lambda>l. Some (EngineFailure ''no gateway''))\<rparr>"

definition untrainable_engine :: "(int, string \<times> int) engine" where
  "untrainable_engine = sample_engine\<lparr>fit := (\<lambda>cv df. Inl (EngineFailure ''training failed''))\<rparr>"



definition no_context_run :: "(string \<times> int) world" where
  "no_context_run = first_run\<lparr>spark_context := Some (EngineFailure ''no JVM'')\<rparr>"

text \<open>A later run, whose store holds the artifact that the first run saved.\<close>

definition second_run :: "(string \<times> int) world" where
  "second_run = first_run\<lparr>trained_models := [model_path ''temperature'' \<mapsto> (''tree'', 3)]\<rparr>"

text \<open>
  An engine of the library's trees whose trainer returns a tree of one split (humidity
  at most 43.5) and two leaves, and the first run with its store.
\<close>

definition stump :: model where
  "stump =
     DecisionTreeRegressionModel ''DecisionTreeRegressor_4a1f''
       (InternalNode 20 (2 / 3) (1 / 2)
          (LeafNode (41 / 2) (1 / 4) [2, 41, 841] 2)
          (LeafNode 19 0 [1, 19, 361] 1)
          (ContinuousSplit 0 (87 / 2)) [3, 60, 1202] 3)
       4"

definition stump_engine :: "(model, saved_model) engine" where
  "stump_engine =
     \<lparr>parse_double = parse_double sample_engine,
      from_unixtime = utc_from_unixtime,
      to_timestamp = utc_to_timestamp,
      month = utc_month,
      dayofmonth = utc_dayofmonth,
      hour = utc_hour,
      draw = draw sample_engine,
      construct = (\<lambda>l. None),
      fit = (\<lambda>cv df. Inr stump),
      write_model = (\<lambda>m. Inr (saveImpl m)),
      read_model = load,
      predict = predict_model,
      evaluate = (\<lambda>ev df. Inr 0),
      toDebugString = (\<lambda>m. ''tree''),
      featureImportances = (\<lambda>m. [1, 0, 0, 0])\<rparr>"

definition first_tree_run :: "saved_model world" where
  "first_tree_run =
     \<lparr>argv = [''DecisionTreeRegression.py'', ''temperature''],
      spark_context = None,
      readings_csv = Inr readings,
      newReading_json = Inr newReading0,
      seed = 1,
      trained_models = Map.empty,
      stdout = [],
      journal = []\<rparr>"

section \<open>Properties\<close>

subsection \<open>The three statements of filterTimestamp\<close>

lemma and_then_simps [simp]:
  "and_then (Inl e) f = Inl e"
  "and_then (Inr x) f = f x"
  by (simp_all add: and_then_def)

lemma getitem_simps [simp]:
  "name \<in> set (columns df) \<Longrightarrow> getitem df name = Inr (Col name)"
  "name \<notin> set (columns df) \<Longrightarrow> getitem df name = Inl AnalysisException"
  by (simp_all add: getitem_def)

lemma floor_third: "\<lfloor>real_of_int h / 3\<rfloor> = h div 3"
  using floor_divide_of_int_eq [of h 3, where ?'a = real] by simp

lemma hour_range_eval:
  "r ''hour'' = Some (IntV h) \<Longrightarrow>
   eval eng r (Floor (Divide (Cast (Col ''hour'') IntegerType) (Lit (IntV 3)))) = IntV (h div 3)"
  by (simp add: as_long_def as_double_def floor_third)

lemma convert_ok:
  assumes "''timestamp'' \<in> set (columns df)"
  shows "\<exists>d. filterTimestamp_convert eng df = Inr d
     \<and> set (columns d) = insert ''timestamp2'' (set (columns df))
     \<and> length (rows d) = length (rows df)
     \<and> (\<forall>i<length (rows df). \<forall>c. c \<noteq> ''timestamp'' \<longrightarrow> c \<noteq> ''timestamp2'' \<longrightarrow> (rows d ! i) c = (rows df ! i) c)"
  using assms by (auto simp: filterTimestamp_convert_def withColumn_def)

lemma extract_ok:
  assumes "''timestamp2'' \<in> set (columns df)" "''timestamp'' \<in> set (columns df)"
  shows "\<exists>d. filterTimestamp_extract eng df = Inr d
     \<and> set (columns d) = (set (columns df) - {''timestamp'', ''timestamp2''}) \<union> {''month'', ''day'', ''hour''}
     \<and> length (rows d) = length (rows df)
     \<and> (\<forall>i<length (rows df). \<forall>c. c \<notin> {''timestamp'', ''timestamp2'', ''month'', ''day'', ''hour''} \<longrightarrow> (rows d ! i) c = (rows df ! i) c)"
  using assms by (auto simp: filterTimestamp_extract_def withColumn_def drop_column_def)

lemma range_ok:
  assumes "''hour'' \<in> set (columns df)"
  shows "\<exists>d. filterTimestamp_range eng df = Inr d
     \<and> set (columns d) = (set (columns df) - {''hour''}) \<union> {''hour_range''}
     \<and> length (rows d) = length (rows df)
     \<and> (\<forall>i<length (rows df). \<forall>c. c \<notin> {''hour'', ''hour_range''} \<longrightarrow> (rows d ! i) c = (rows df ! i) c)
     \<and> (\<forall>i<length (rows df). \<forall>h. (rows df ! i) ''hour'' = Some (IntV h) \<longrightarrow> (rows d ! i) ''hour_range'' = Some (IntV (h div 3)))"
  using assms by (auto simp: filterTimestamp_range_def withColumn_def drop_column_def hour_range_eval simp del: eval.simps)

lemma filterTimestamp_stages:
  assumes "''timestamp'' \<in> set (columns df)"
  shows "\<exists>d1 d2 out. filterTimestamp_convert eng df = Inr d1
     \<and> filterTimestamp_extract eng d1 = Inr d2
     \<and> filterTimestamp_range eng d2 = Inr out
     \<and> filterTimestamp eng df = Inr out
     \<and> set (columns out) = (set (columns df) - {''timestamp'', ''timestamp2'', ''hour''}) \<union> {''month'', ''day'', ''hour_range''}
     \<and> length (rows d2) = length (rows df)
     \<and> length (rows out) = length (rows df)
     \<and> (\<forall>i<length (rows df). \<forall>c. c \<notin> {''timestamp'', ''timestamp2'', ''month'', ''day'', ''hour'', ''hour_range''} \<longrightarrow> (rows out ! i) c = (rows df ! i) c)
     \<and> (\<forall>i<length (rows df). \<forall>h. (rows d2 ! i) ''hour'' = Some (IntV h) \<longrightarrow> (rows out ! i) ''hour_range'' = Some (IntV (h div 3)))"
proof -
  obtain d1 where d1: "filterTimestamp_convert eng df = Inr d1"
    "set (columns d1) = insert ''timestamp2'' (set (columns df))"
    "length (rows d1) = length (rows df)"
    "\<forall>i<length (rows df). \<forall>c. c \<noteq> ''timestamp'' \<longrightarrow> c \<noteq> ''timestamp2'' \<longrightarrow> (rows d1 ! i) c = (rows df ! i) c"
    using convert_ok [OF assms, of eng] by (elim exE conjE) (rule that, assumption+)
  have in1: "''timestamp2'' \<in> set (columns d1)" "''timestamp'' \<in> set (columns d1)"
    using d1(2) assms by auto
  obtain d2 where d2: "filterTimestamp_extract eng d1 = Inr d2"
    "set (columns d2) = (set (columns d1) - {''timestamp'', ''timestamp2''}) \<union> {''month'', ''day'', ''hour''}"
    "length (rows d2) = length (rows d1)"
    "\<forall>i<length (rows d1). \<forall>c. c \<notin> {''timestamp'', ''timestamp2'', ''month'', ''day'', ''hour''} \<longrightarrow> (rows d2 ! i) c = (rows d1 ! i) c"
    using extract_ok [OF in1, of eng] by (elim exE conjE) (rule that, assumption+)
  have in2: "''hour'' \<in> set (columns d2)" using d2(2) by simp
  obtain out where out: "filterTimestamp_range eng d2 = Inr out"
    "set (columns out) = (set (columns d2) - {''hour''}) \<union> {''hour_range''}"
    "length (rows out) = length (rows d2)"
    "\<forall>i<length (rows d2). \<forall>c. c \<notin> {''hour'', ''hour_range''} \<longrightarrow> (rows out ! i) c = (rows d2 ! i) c"
    "\<forall>i<length (rows d2). \<forall>h. (rows d2 ! i) ''hour'' = Some (IntV h) \<longrightarrow> (rows out ! i) ''hour_range'' = Some (IntV (h div 3))"
    using range_ok [OF in2, of eng] by (elim exE conjE) (rule that, assumption+)
  have ft: "filterTimestamp eng df = Inr out"
    by (simp add: filterTimestamp_def d1(1) d2(1) out(1))
  have cols: "set (columns out) = (set (columns df) - {''timestamp'', ''timestamp2'', ''hour''}) \<union> {''month'', ''day'', ''hour_range''}"
    unfolding out(2) d2(2) d1(2) by auto
  have frame: "\<forall>i<length (rows df). \<forall>c. c \<notin> {''timestamp'', ''timestamp2'', ''month'', ''day'', ''hour'', ''hour_range''} \<longrightarrow> (rows out ! i) c = (rows df ! i) c"
    using out(4) d2(4) d1(4) d2(3) d1(3) by simp
  show ?thesis
    using d1(1) d2(1) out(1) ft cols frame out(3,5) d2(3) d1(3) by simp
qed

lemma filterTimestamp_no_timestamp:
  "''timestamp'' \<notin> set (columns df) \<Longrightarrow> filterTimestamp eng df = Inl AnalysisException"
  by (simp add: filterTimestamp_def filterTimestamp_convert_def)

subsection \<open>The random split\<close>

lemma sample_nths_aux:
  "map snd (filter (\<lambda>(i, r). P i) (enumerate n xs)) = nths xs {i. P (i + n)}"
proof (induction xs arbitrary: n)
  case Nil
  then show ?case by simp
next
  case (Cons x xs)
  show ?case by (simp add: Cons.IH nths_Cons)
qed

lemma rows_sample:
  "rows (sample d b df) = nths (rows df) {i. fst b \<le> d i \<and> d i < snd b}"
  using sample_nths_aux [of "\<lambda>i. fst b \<le> d i \<and> d i < snd b" 0 "rows df"]
  by (simp add: sample_def)

lemma columns_sample: "columns (sample d b df) = columns df"
  by (simp add: sample_def)

lemma randomSplit_70_30:
  "randomSplit d [7 / 10, 3 / 10] df = [sample d (0, 7 / 10) df, sample d (7 / 10, 1) df]"
  by (simp add: randomSplit_def)

lemma mset_nths_partition: "mset (nths xs A) + mset (nths xs (- A)) = mset xs"
proof (induction xs arbitrary: A)
  case Nil
  then show ?case by simp
next
  case (Cons x xs)
  have "{j. Suc j \<in> - A} = - {j. Suc j \<in> A}" by auto
  then show ?case using Cons.IH [of "{j. Suc j \<in> A}"] by (simp add: nths_Cons)
qed

subsection \<open>Statements, guards and the steps of main\<close>

lemma bind_cases:
  assumes "bind m f w = (r, w')"
  obtains (raised) e where "m w = (Inl e, w')" "r = Inl e"
        | (continued) x w1 where "m w = (Inr x, w1)" "f x w1 = (r, w')"
  using assms by (auto simp: bind_def split: prod.splits sum.splits)

lemma bind_Inr: "m w = (Inr x, w1) \<Longrightarrow> bind m f w = f x w1"
  by (simp add: bind_def)

lemma bind_Inl: "m w = (Inl e, w1) \<Longrightarrow> bind m f w = (Inl e, w1)"
  by (simp add: bind_def)

lemma guarded_Inr: "body w = (Inr x, w1) \<Longrightarrow> guarded msg body w = (Inr x, w1)"
  by (simp add: guarded_def)

lemma guarded_Inl:
  "body w = (Inl e, w1) \<Longrightarrow>
   guarded msg body w = (Inr None, w1\<lparr>stdout := stdout w1 @ [Traceback e, Message e, Line msg]\<rparr>)"
  by (simp add: guarded_def)

lemma guarded_never_raises: "\<exists>x. fst (guarded msg body w) = Inr x"
  by (auto simp: guarded_def split: prod.splits sum.splits)

lemma setLabel_ok:
  "1 < length (argv w) \<Longrightarrow>
   setLabel w = (Inr (Some (argv w ! 1)),
                 w\<lparr>stdout := stdout w @ [Line (''Label -> '' @ argv w ! 1)]\<rparr>)"
  by (simp add: setLabel_def guarded_def bind_def argv1_def print_def ret_def)

lemma setLabel_fail:
  "\<not> 1 < length (argv w) \<Longrightarrow>
   setLabel w = (Inr None,
                 w\<lparr>stdout := stdout w @ [Traceback IndexError, Message IndexError,
                       Line ''Label Setting Error -> Cannot retrieve the label'']\<rparr>)"
  by (simp add: setLabel_def guarded_def bind_def argv1_def)

lemma initialize_context_fails:
  "spark_context w = Some e \<Longrightarrow> initialize eng w = (Inl e, w)"
  by (simp add: initialize_def bind_def start_context_def)

lemma initialize_ok:
  assumes "spark_context w = None" "readings_csv w = Inr d" "newReading_json w = Inr n"
    "1 < length (argv w)" "argv w ! 1 \<in> set (columns n)"
  shows "initialize eng w = (Inr (Some (d, cast_label eng (argv w ! 1) n)), w)"
  using assms
  by (simp add: initialize_def bind_def start_context_def guarded_def read_csv_def
      read_json_def argv1_def lift_def withColumn_def ret_def cast_label_def)

lemma initialize_no_label:
  assumes "spark_context w = None" "\<not> 1 < length (argv w)"
  shows "\<exists>s. initialize eng w = (Inr None, w\<lparr>stdout := s\<rparr>)"
  using assms
  by (auto simp: initialize_def bind_def start_context_def guarded_def read_csv_def
      read_json_def argv1_def lift_def withColumn_def ret_def split: sum.splits)


lemma cacheDataframe_eq:
  "cacheDataframe f w = (Inr (), w\<lparr>stdout := stdout w @ [Schema (columns f), Describe f]\<rparr>)"
  by (simp add: cacheDataframe_def bind_def print_def)

lemma vectorizeDataframe_eq:
  "vectorizeDataframe d fs w
     = (assemble fs ''features'' d, w\<lparr>journal := journal w @ [Assemble fs]\<rparr>)"
  by (simp add: vectorizeDataframe_def assembler_transform_def bind_def record_action_def
      lift_def)

lemma splitDataframe_world: "splitDataframe eng d w = (r, w') \<Longrightarrow> w' = w \<and> \<not> isl r"
  by (auto simp: splitDataframe_def Let_def)

lemma decisionTreeRegression_ok:
  "construct eng l = None \<Longrightarrow> \<exists>cv ev. decisionTreeRegression eng l w = (Inr (Some (cv, ev)), w)"
  by (simp add: decisionTreeRegression_def guarded_def bind_def lift_def ret_def Let_def)

lemma decisionTreeRegression_fail:
  "construct eng l = Some e \<Longrightarrow>
   decisionTreeRegression eng l w
     = (Inr None, w\<lparr>stdout := stdout w @ [Traceback e, Message e,
          Line ''Model Creation Error -> Cannot perform the creation of the model'']\<rparr>)"
  by (simp add: decisionTreeRegression_def guarded_def bind_def lift_def)

lemma print_all_eq: "print_all xs w = (Inr (), w\<lparr>stdout := stdout w @ xs\<rparr>)"
  by (induction xs arbitrary: w) (simp_all add: ret_def bind_def print_def)

lemma featureImportance_None:
  "featureImportance eng None fs w
     = (Inl AttributeError, w\<lparr>stdout := stdout w @ [Line ''Feature Importances:'']\<rparr>)"
  by (simp add: featureImportance_def bind_def print_def attr_def raise_def)

lemma featureImportance_Some:
  "featureImportance eng (Some m) fs w
     = (Inr (), w\<lparr>stdout := stdout w @ Line ''Feature Importances:''
          # map (\<lambda>(feature, importance). Importance feature importance)
              (zip fs (featureImportances eng m))\<rparr>)"
  by (simp add: featureImportance_def bind_def print_def attr_def ret_def print_all_eq)

lemma predictAndEvaluate_result:
  "\<exists>s. predictAndEvaluate eng bm l t ev n w = (Inr None, w\<lparr>stdout := s\<rparr>)"
  by (auto simp: predictAndEvaluate_def guarded_def bind_def lift_def ret_def raise_def
      attr_def print_def show_rows_def split: sum.splits option.splits prod.splits)

lemma trainOrLoad_None: "trainOrLoad eng None cv t w = (Inl TypeError, w)"
  by (simp add: trainOrLoad_def bind_def concat_label_def raise_def)

lemma trainOrLoad_fit_fails:
  "model_path l \<notin> dom (trained_models w) \<Longrightarrow> fit eng cv t = Inl e \<Longrightarrow>
   trainOrLoad eng (Some l) cv t w
     = (Inr None, w\<lparr>stdout := stdout w @ [Traceback e, Message e,
          Line ''Model Training Error -> Cannot perform the training of the model''],
          journal := journal w @ [Fit]\<rparr>)"
  by (simp add: trainOrLoad_def bind_def concat_label_def ret_def path_exists_def guarded_def
      fit_best_def record_action_def lift_def model_path_def)

lemma trainOrLoad_write_fails:
  "model_path l \<notin> dom (trained_models w) \<Longrightarrow> fit eng cv t = Inr m \<Longrightarrow>
   write_model eng m = Inl e \<Longrightarrow>
   trainOrLoad eng (Some l) cv t w
     = (Inr None, w\<lparr>stdout := stdout w @ [Traceback e, Message e,
          Line ''Model Training Error -> Cannot perform the training of the model''],
          journal := journal w @ [Fit, Save (model_path l)]\<rparr>)"
  by (simp add: trainOrLoad_def bind_def concat_label_def ret_def path_exists_def guarded_def
      fit_best_def save_overwrite_def record_action_def lift_def model_path_def)

lemma trainOrLoad_trains:
  "model_path l \<notin> dom (trained_models w) \<Longrightarrow> fit eng cv t = Inr m \<Longrightarrow>
   write_model eng m = Inr a \<Longrightarrow>
   trainOrLoad eng (Some l) cv t w
     = (Inr (Some m), w\<lparr>trained_models := (trained_models w)(model_path l \<mapsto> a),
          stdout := stdout w @ [Line ''Model Saved''],
          journal := journal w @ [Fit, Save (model_path l)]\<rparr>)"
  by (simp add: trainOrLoad_def bind_def concat_label_def ret_def path_exists_def guarded_def
      fit_best_def save_overwrite_def record_action_def lift_def print_def model_path_def)

lemma trainOrLoad_load_fails:
  "trained_models w (model_path l) = Some a \<Longrightarrow> read_model eng a = Inl e \<Longrightarrow>
   trainOrLoad eng (Some l) cv t w
     = (Inr None, w\<lparr>stdout := stdout w @ [Traceback e, Message e,
          Line ''Model Creation Error -> Cannot perform the creation of the model''],
          journal := journal w @ [Load (model_path l)]\<rparr>)"
  by (simp add: trainOrLoad_def bind_def concat_label_def ret_def path_exists_def guarded_def
      load_model_def record_action_def lift_def model_path_def dom_def)

lemma trainOrLoad_loads:
  "trained_models w (model_path l) = Some a \<Longrightarrow> read_model eng a = Inr m \<Longrightarrow>
   trainOrLoad eng (Some l) cv t w
     = (Inr (Some m), w\<lparr>stdout := stdout w @ [Line ''Model Loaded''],
          journal := journal w @ [Load (model_path l)]\<rparr>)"
  by (simp add: trainOrLoad_def bind_def concat_label_def ret_def path_exists_def guarded_def
      load_model_def record_action_def lift_def print_def model_path_def dom_def)

lemma unpack_result:
  "unpack x w = (r, w') \<Longrightarrow> w' = w \<and> (case x of None \<Rightarrow> r = Inl TypeError | Some p \<Rightarrow> r = Inr p)"
  by (auto simp: unpack_def raise_def ret_def split: option.splits)

lemma lift_result: "lift x w = (r, w') \<Longrightarrow> w' = w \<and> r = x"
  by (simp add: lift_def)



lemma decisionTreeRegression_result:
  "decisionTreeRegression eng l w = (r, w') \<Longrightarrow>
   (\<exists>s. w' = w\<lparr>stdout := s\<rparr>)
   \<and> (case construct eng l of None \<Rightarrow> (\<exists>cv ev. r = Inr (Some (cv, ev))) | Some e \<Rightarrow> r = Inr None)"
proof (cases "construct eng l")
  case None
  assume "decisionTreeRegression eng l w = (r, w')"
  then show ?thesis using decisionTreeRegression_ok [OF None, of w] None
    by (auto intro: exI [of _ "stdout w"])
next
  case (Some e)
  assume "decisionTreeRegression eng l w = (r, w')"
  then show ?thesis using decisionTreeRegression_fail [OF Some, of w] Some by auto
qed

lemma trainOrLoad_result:
  assumes "trainOrLoad eng l cv t w = (r, w')"
  shows "(l = None \<and> r = Inl TypeError \<and> w' = w)
     \<or> (\<exists>p js. l = Some p
          \<and> argv w' = argv w
          \<and> journal w' = journal w @ js \<and> (\<forall>cols. Assemble cols \<notin> set js)
          \<and> (case trained_models w (model_path p) of
                None \<Rightarrow> (case fit eng cv t of
                            Inl e \<Rightarrow> r = Inr None
                          | Inr m \<Rightarrow> (case write_model eng m of
                                         Inl e \<Rightarrow> r = Inr None
                                       | Inr a \<Rightarrow> r = Inr (Some m)))
              | Some a \<Rightarrow> (case read_model eng a of
                              Inl e \<Rightarrow> r = Inr None
                            | Inr m \<Rightarrow> r = Inr (Some m))))"
proof (cases l)
  case None
  then show ?thesis using assms by (simp add: trainOrLoad_None)
next
  case (Some p)
  show ?thesis
  proof (cases "trained_models w (model_path p)")
    case None
    then have absent: "model_path p \<notin> dom (trained_models w)" by auto
    show ?thesis
    proof (cases "fit eng cv t")
      case (Inl e)
      show ?thesis
        using assms Some None Inl trainOrLoad_fit_fails [OF absent Inl] by auto
    next
      case (Inr m)
      show ?thesis
      proof (cases "write_model eng m")
        case (Inl e)
        show ?thesis
          using assms Some None Inr Inl trainOrLoad_write_fails [OF absent Inr Inl] by auto
      next
        case a: (Inr a)
        show ?thesis
          using assms Some None Inr a trainOrLoad_trains [OF absent Inr a] by auto
      qed
    qed
  next
    case a: (Some a)
    show ?thesis
    proof (cases "read_model eng a")
      case (Inl e)
      show ?thesis using assms Some a Inl trainOrLoad_load_fails [OF a Inl] by auto
    next
      case (Inr m)
      show ?thesis using assms Some a Inr trainOrLoad_loads [OF a Inr] by auto
    qed
  qed
qed

lemma rows_cast_label:
  "i < length (rows n) \<Longrightarrow>
   (rows (cast_label eng l n) ! i) c
     = (if c = l
        then Some (DoubleV (case as_double eng (case (rows n ! i) l of Some v \<Rightarrow> v | None \<Rightarrow> Null)
                            of Some x \<Rightarrow> x | None \<Rightarrow> 0))
        else (rows n ! i) c)"
  by (auto simp: cast_label_def na_fill_def split: option.splits)

lemma initialize_unknown_label:
  assumes "spark_context w = None" "readings_csv w = Inr d" "newReading_json w = Inr n"
    "1 < length (argv w)" "argv w ! 1 \<notin> set (columns n)"
  shows "\<exists>s. initialize eng w = (Inr None, w\<lparr>stdout := s\<rparr>)"
  using assms
  by (auto simp: initialize_def bind_def start_context_def guarded_def read_csv_def
      read_json_def argv1_def lift_def withColumn_def)

lemma main_initialize_None:
  "initialize eng w = (Inr None, w1) \<Longrightarrow> main eng w = (Inl TypeError, w1)"
  by (simp add: main_def bind_def unpack_def raise_def)

lemma main_label_missing:
  assumes "spark_context w = None" "readings_csv w = Inr d" "newReading_json w = Inr n"
    "1 < length (argv w)" "argv w ! 1 \<in> set (columns n)"
    "filterTimestamp eng d = Inr f" "argv w ! 1 \<notin> set (columns f)"
  shows "fst (main eng w) = Inl ValueError"
  using assms(4,6,7)
  by (simp add: main_def bind_def initialize_ok [OF assms(1-5)] unpack_def ret_def
      setLabel_ok lift_def list_remove_def)

lemma timestamp_not_filtered:
  assumes "filterTimestamp eng d = Inr f"
  shows "''timestamp'' \<notin> set (columns f)"
proof (cases "''timestamp'' \<in> set (columns d)")
  case True
  obtain out where "filterTimestamp eng d = Inr out"
    "set (columns out) = (set (columns d) - {''timestamp'', ''timestamp2'', ''hour''})
         \<union> {''month'', ''day'', ''hour_range''}"
    using filterTimestamp_stages [OF True, of eng]
    by (elim exE conjE) (rule that, assumption+)
  then show ?thesis using assms by auto
next
  case False
  then show ?thesis using assms by (simp add: filterTimestamp_no_timestamp)
qed

lemma trainOrLoad_absent:
  assumes "model_path l \<notin> dom (trained_models w)"
    and "trainOrLoad eng (Some l) cv t w = (Inr (Some m), w1)"
  shows "\<exists>a. fit eng cv t = Inr m \<and> write_model eng m = Inr a
            \<and> trained_models w1 = (trained_models w)(model_path l \<mapsto> a)"
proof (cases "fit eng cv t")
  case (Inl e)
  then show ?thesis using assms trainOrLoad_fit_fails [OF assms(1) Inl] by simp
next
  case (Inr m0)
  show ?thesis
  proof (cases "write_model eng m0")
    case (Inl e)
    then show ?thesis using assms trainOrLoad_write_fails [OF assms(1) Inr Inl] by simp
  next
    case a: (Inr a)
    show ?thesis using assms(2) Inr a trainOrLoad_trains [OF assms(1) Inr a] by auto
  qed
qed

lemma sample_fit: "fit sample_engine sample_cv readings = Inr 3"
  by (simp add: sample_engine_def readings_def)

lemma sample_write: "write_model sample_engine 3 = Inr (''tree'', 3)"
  by (simp add: sample_engine_def)

lemma first_run_store: "model_path l \<notin> dom (trained_models first_run)"
  by (simp add: first_run_def)

lemma vectorizeDataframe_result:
  "vectorizeDataframe d fs w = (r, w') \<Longrightarrow>
   w' = w\<lparr>journal := journal w @ [Assemble fs]\<rparr> \<and> r = assemble fs ''features'' d"
  by (simp add: vectorizeDataframe_eq)

lemma cacheDataframe_result:
  "cacheDataframe f w = (r, w') \<Longrightarrow> (\<exists>s. w' = w\<lparr>stdout := s\<rparr>) \<and> r = Inr ()"
  by (auto simp: cacheDataframe_eq)

lemma featureImportance_result:
  "featureImportance eng bm fs w = (r, w') \<Longrightarrow>
   (\<exists>s. w' = w\<lparr>stdout := s\<rparr>)
   \<and> r = (case bm of None \<Rightarrow> Inl AttributeError | Some m \<Rightarrow> Inr ())"
  by (cases bm) (auto simp: featureImportance_None featureImportance_Some)

lemma predictAndEvaluate_result2:
  "predictAndEvaluate eng bm l t ev n w = (r, w') \<Longrightarrow> (\<exists>s. w' = w\<lparr>stdout := s\<rparr>) \<and> r = Inr None"
  using predictAndEvaluate_result [of eng bm l t ev n w] by auto

lemma main_eq:
  "main eng =
     bind (initialize eng) (\<lambda>r.
     bind (unpack r) (\<lambda>(dataDf, newReading).
     bind setLabel (\<lambda>label.
     bind (lift (filterTimestamp eng dataDf)) (\<lambda>filteredDf.
     bind (lift (list_remove (columns filteredDf) label)) (\<lambda>features.
     main_tail eng label filteredDf newReading features)))))"
  by (simp add: main_def main_tail_def)

lemma lift_result2: "lift x w = (r, w') \<Longrightarrow> w' = w \<and> x = r"
  by (simp add: lift_def)

lemma ret_result: "ret x w = (r, w') \<Longrightarrow> w' = w \<and> r = Inr x"
  by (auto simp: ret_def)

lemma main_tail_journal:
  assumes "main_tail eng l f n fs w = (r, w')"
  shows "\<exists>js. journal w' = journal w @ js \<and> (\<forall>cols. Assemble cols \<in> set js \<longrightarrow> cols = fs)"
  using assms unfolding main_tail_def case_prod_beta
  apply (elim bind_cases)
  apply (auto dest!: cacheDataframe_result lift_result2 vectorizeDataframe_result
      splitDataframe_world decisionTreeRegression_result unpack_result trainOrLoad_result
      featureImportance_result predictAndEvaluate_result2 ret_result)
  done



lemma withColumn_distinct:
  "withColumn eng c e d = Inr d' \<Longrightarrow> distinct (columns d) \<Longrightarrow> distinct (columns d')"
  by (auto simp: withColumn_def split: if_splits)

lemma drop_column_distinct: "distinct (columns d) \<Longrightarrow> distinct (columns (drop_column e d))"
  by (cases e) (simp_all add: drop_column_def distinct_removeAll)

lemma and_then_Inr: "and_then m k = Inr y \<Longrightarrow> \<exists>x. m = Inr x \<and> k x = Inr y"
  by (cases m) simp_all

lemma filterTimestamp_distinct:
  assumes "filterTimestamp eng d = Inr f" "distinct (columns d)"
  shows "distinct (columns f)"
proof -
  obtain d1 d2 where s: "filterTimestamp_convert eng d = Inr d1"
    "filterTimestamp_extract eng d1 = Inr d2" "filterTimestamp_range eng d2 = Inr f"
    using assms(1) unfolding filterTimestamp_def by (auto dest!: and_then_Inr)
  have 1: "distinct (columns d1)"
    using s(1) assms(2) unfolding filterTimestamp_convert_def
    by (auto dest!: and_then_Inr dest: withColumn_distinct)
  have 2: "distinct (columns d2)"
    using s(2) 1 unfolding filterTimestamp_extract_def
    by (auto dest!: and_then_Inr dest: withColumn_distinct intro!: drop_column_distinct)
  show ?thesis
    using s(3) 2 unfolding filterTimestamp_range_def
    by (auto dest!: and_then_Inr dest: withColumn_distinct intro!: drop_column_distinct)
qed

lemma main_reaches_tail:
  assumes "spark_context w = None" "readings_csv w = Inr d" "newReading_json w = Inr n"
    "1 < length (argv w)" "argv w ! 1 \<in> set (columns n)"
    "filterTimestamp eng d = Inr f" "argv w ! 1 \<in> set (columns f)"
  shows "main eng w
           = main_tail eng (Some (argv w ! 1)) f (cast_label eng (argv w ! 1) n)
               (remove1 (argv w ! 1) (columns f))
               (w\<lparr>stdout := stdout w @ [Line (''Label -> '' @ argv w ! 1)]\<rparr>)"
  using assms(4,6,7)
  by (simp add: main_eq bind_def initialize_ok [OF assms(1-5)] unpack_def ret_def
      setLabel_ok lift_def list_remove_def)

lemma main_tail_assembles:
  assumes "main_tail eng l f n fs w = (r, w')" "filterTimestamp eng n = Inr nf"
  shows "Assemble fs \<in> set (journal w')"
  using assms unfolding main_tail_def case_prod_beta
  apply (elim bind_cases)
  apply (auto dest!: cacheDataframe_result lift_result2 vectorizeDataframe_result
      splitDataframe_world decisionTreeRegression_result unpack_result trainOrLoad_result
      featureImportance_result predictAndEvaluate_result2 ret_result)
  done

lemma columns_cast_label: "columns (cast_label eng l n) = columns n"
  by (simp add: cast_label_def na_fill_def)

lemma initialize_guarded:
  "spark_context w = None \<Longrightarrow> \<exists>x. fst (initialize eng w) = Inr x"
  using guarded_never_raises
  by (simp add: initialize_def bind_def start_context_def)

lemma trainOrLoad_guarded: "\<exists>x. fst (trainOrLoad eng (Some p) cv t w) = Inr x"
proof -
  obtain r w' where run: "trainOrLoad eng (Some p) cv t w = (r, w')"
    by (cases "trainOrLoad eng (Some p) cv t w")
  show ?thesis
    using trainOrLoad_result [OF run] run by (auto split: option.splits sum.splits)
qed

lemma predictAndEvaluate_None:
  "predictAndEvaluate eng None l t ev n w
     = (Inr None, w\<lparr>stdout := stdout w @ [Traceback AttributeError, Message AttributeError,
          Line ''Model Prediction Error -> Cannot perform the prediction on the model'']\<rparr>)"
  by (simp add: predictAndEvaluate_def guarded_def bind_def attr_def raise_def)

lemma vectorizeDataframe_missing:
  "\<not> set fs \<subseteq> set (columns d) \<Longrightarrow> fst (vectorizeDataframe d fs w) = Inl IllegalArgumentException"
  by (simp add: vectorizeDataframe_eq assemble_def)






subsection \<open>The model store: what is written is read back\<close>

lemma getSplit_toSplitData: "getSplit (toSplitData s) = Inr s"
  by (cases s) (simp_all add: getSplit_def)

lemma build_ids:
  "build t i = (ds, j) \<Longrightarrow> map nodeId ds = [i..j] \<and> i \<le> j"
proof (induction t arbitrary: i ds j)
  case (LeafNode p im st rc)
  then show ?case by auto
next
  case (InternalNode p im g l r s st rc)
  obtain ld li where l: "build l (i + 1) = (ld, li)" by (cases "build l (i + 1)")
  obtain rd ri where r: "build r (li + 1) = (rd, ri)" by (cases "build r (li + 1)")
  from InternalNode.IH(1) [OF l] have 1: "map nodeId ld = [i + 1..li]" "i + 1 \<le> li" by simp_all
  from InternalNode.IH(2) [OF r] have 2: "map nodeId rd = [li + 1..ri]" "li + 1 \<le> ri" by simp_all
  from InternalNode.prems l r have ds: "map nodeId ds = i # map nodeId ld @ map nodeId rd"
    and j: "j = ri" by auto
  have "[i..ri] = i # [i + 1..ri]" using 1(2) 2(2) by (intro upto_rec1) simp
  also have "[i + 1..ri] = [i + 1..li] @ [li + 1..ri]"
    using 1(2) 2(2) by (intro upto_split2) simp_all
  finally show ?case using ds j 1 2 by simp
qed

lemma build_hd: "build t i = (ds, j) \<Longrightarrow> ds \<noteq> [] \<and> nodeId (hd ds) = i"
  by (cases t) (auto split: prod.splits)

lemma build_place:
  "build t i = (ds, j) \<Longrightarrow> 0 \<le> i \<Longrightarrow>
   \<exists>F'. fold (\<lambda>n acc. and_then acc (place n)) (rev ds) (Inr F) = Inr F'
       \<and> F' i = Some t \<and> (\<forall>k. k < i \<or> j < k \<longrightarrow> F' k = F k)"
proof (induction t arbitrary: i ds j F)
  case (LeafNode p im st rc)
  then show ?case by (auto simp: place_def)
next
  case (InternalNode p im g l r s st rc)
  let ?f = "\<lambda>n acc. and_then acc (place n)"
  obtain ld li where l: "build l (i + 1) = (ld, li)" by (cases "build l (i + 1)")
  obtain rd ri where r: "build r (li + 1) = (rd, ri)" by (cases "build r (li + 1)")
  have il: "i + 1 \<le> li" using build_ids [OF l] by simp
  have lr: "li + 1 \<le> ri" using build_ids [OF r] by simp
  let ?nd = "\<lparr>nodeId = i, prediction = p, impurity = im, impurityStats = st, rawCount = rc,
          gain = g, leftChild = i + 1, rightChild = li + 1, splitData = toSplitData s\<rparr>"
  have ds: "ds = ?nd # (ld @ rd)" and j: "j = ri"
    using InternalNode.prems(1) l r build_hd [OF l] build_hd [OF r] by auto
  have p1: "0 \<le> i + 1" and p2: "0 \<le> li + 1" using InternalNode.prems(2) il by simp_all
  obtain F1 where F1: "fold ?f (rev rd) (Inr F) = Inr F1" "F1 (li + 1) = Some r"
    "\<forall>k. k < li + 1 \<or> ri < k \<longrightarrow> F1 k = F k"
    using InternalNode.IH(2) [OF r p2, where F = F]
    by (elim exE conjE) (rule that, assumption+)
  obtain F2 where F2: "fold ?f (rev ld) (Inr F1) = Inr F2" "F2 (i + 1) = Some l"
    "\<forall>k. k < i + 1 \<or> li < k \<longrightarrow> F2 k = F1 k"
    using InternalNode.IH(1) [OF l p1, where F = F1]
    by (elim exE conjE) (rule that, assumption+)
  have r2: "F2 (li + 1) = Some r" using F2(3) F1(2) by simp
  have ne: "i + 1 \<noteq> - 1" using InternalNode.prems(2) by simp
  have 3: "place ?nd F2 = Inr (F2(i \<mapsto> InternalNode p im g l r s st rc))"
    using ne by (simp add: place_def F2(2) r2 getSplit_toSplitData)
  have "fold ?f (rev ds) (Inr F) = Inr (F2(i \<mapsto> InternalNode p im g l r s st rc))"
    unfolding ds by (simp add: F1(1) F2(1) 3)
  moreover have "\<forall>k. k < i \<or> j < k \<longrightarrow> (F2(i \<mapsto> InternalNode p im g l r s st rc)) k = F k"
    using F1(3) F2(3) il lr j by auto
  ultimately show ?case by simp
qed

lemma buildTreeFromNodes_build: "buildTreeFromNodes (fst (build t 0)) = Inr t"
proof -
  obtain ds j where b: "build t 0 = (ds, j)" by (cases "build t 0")
  have ids: "map nodeId ds = [0..j]" "0 \<le> j" using build_ids [OF b] by simp_all
  have s: "sort_key nodeId ds = ds"
    by (rule sort_key_id_if_sorted) (simp add: ids)
  have ne: "ds \<noteq> []" "nodeId (hd ds) = 0" using build_hd [OF b] by simp_all
  have len: "int (length ds) - 1 = j"
    using arg_cong [OF ids(1), of length] ids(2) by simp
  have "last (map nodeId ds) = j" unfolding ids(1) using ids(2)
    by (simp add: upto_rec2)
  then have la: "nodeId (last ds) = j" using ne(1) by (simp add: last_map)
  obtain F' where F': "fold (\<lambda>n acc. and_then acc (place n)) (rev ds) (Inr Map.empty) = Inr F'"
    "F' 0 = Some t"
    using build_place [OF b, of Map.empty] by auto
  show ?thesis
    by (simp add: buildTreeFromNodes_def b s ne la len F')
qed

lemma load_saveImpl: "load (saveImpl m) = Inr m"
  by (cases m) (simp add: load_def saveImpl_def buildTreeFromNodes_build)

subsection \<open>Claims\<close>

text \<open>
  C1.  For every row of the input whose extracted hour (the cell of column \<open>hour\<close> after
  the second statement of \<open>filterTimestamp\<close>) is an integer \<open>h\<close> with
  \<open>0 \<le> h \<le> 23\<close>, \<open>filterTimestamp\<close> returns a dataframe in which that row has
  \<open>hour_range = \<lfloor>h / 3\<rfloor>\<close>, a number between 0 and 7.
\<close>

theorem hour_range_bucket:
  assumes "''timestamp'' \<in> set (columns df)"
    and "filterTimestamp_convert eng df = Inr d1"
    and "filterTimestamp_extract eng d1 = Inr d2"
    and "i < length (rows df)"
    and "(rows d2 ! i) ''hour'' = Some (IntV h)"
    and "0 \<le> h" and "h \<le> 23"
  shows "\<exists>out. filterTimestamp eng df = Inr out
           \<and> length (rows out) = length (rows df)
           \<and> (rows out ! i) ''hour_range'' = Some (IntV \<lfloor>real_of_int h / 3\<rfloor>)
           \<and> 0 \<le> \<lfloor>real_of_int h / 3\<rfloor> \<and> \<lfloor>real_of_int h / 3\<rfloor> \<le> 7"
proof -
  obtain e1 e2 out where s: "filterTimestamp_convert eng df = Inr e1"
    "filterTimestamp_extract eng e1 = Inr e2"
    "filterTimestamp eng df = Inr out"
    "length (rows out) = length (rows df)"
    "\<forall>i<length (rows df). \<forall>h. (rows e2 ! i) ''hour'' = Some (IntV h)
        \<longrightarrow> (rows out ! i) ''hour_range'' = Some (IntV (h div 3))"
    using filterTimestamp_stages [OF assms(1), of eng]
    by (elim exE conjE) (rule that, assumption+)
  have "e1 = d1" using s(1) assms(2) by simp
  then have "e2 = d2" using s(2) assms(3) by simp
  then have "(rows out ! i) ''hour_range'' = Some (IntV (h div 3))"
    using s(5) assms(4,5) by simp
  moreover have "0 \<le> h div 3" "h div 3 \<le> 7" using assms(6,7) by simp_all
  ultimately show ?thesis using s(3,4) by (simp add: floor_third)
qed

text \<open>
  The first sample reading was taken at 22:13:20 UTC: its hour is 22 and its range 7.
\<close>

theorem hour_range_bucket_witness:
  "\<exists>out. filterTimestamp sample_engine readings = Inr out
      \<and> length (rows out) = length (rows readings)
      \<and> (rows out ! 0) ''hour_range'' = Some (IntV \<lfloor>real_of_int 22 / 3\<rfloor>)
      \<and> 0 \<le> \<lfloor>real_of_int 22 / 3\<rfloor> \<and> \<lfloor>real_of_int 22 / 3\<rfloor> \<le> (7::int)"
proof -
  have a: "''timestamp'' \<in> set (columns readings)" by code_simp
  have b: "filterTimestamp_convert sample_engine readings
             = Inr (projr (filterTimestamp_convert sample_engine readings))"
  proof -
    have "\<not> isl (filterTimestamp_convert sample_engine readings)" by code_simp
    then show ?thesis by simp
  qed
  have c: "filterTimestamp_extract sample_engine
             (projr (filterTimestamp_convert sample_engine readings))
           = Inr (projr (filterTimestamp_extract sample_engine
                    (projr (filterTimestamp_convert sample_engine readings))))"
  proof -
    have "\<not> isl (filterTimestamp_extract sample_engine
             (projr (filterTimestamp_convert sample_engine readings)))" by code_simp
    then show ?thesis by simp
  qed
  have d: "0 < length (rows readings)" by code_simp
  have e: "(rows (projr (filterTimestamp_extract sample_engine
              (projr (filterTimestamp_convert sample_engine readings)))) ! 0) ''hour''
           = Some (IntV 22)"
    by code_simp
  show ?thesis
    by (rule hour_range_bucket [OF a b c d e]) simp_all
qed

text \<open>
  C8.  Whatever the dataframe and the seed, as long as the sampler's draws lie in
  \<open>[0, 1)\<close>, \<open>splitDataframe\<close> returns two dataframes that partition the input: there is
  a set \<open>A\<close> of positions such that the training part holds the rows at the positions in
  \<open>A\<close> and the test part the rows at all other positions, in order, so that every row
  occurrence is in exactly one part and the two parts together are the input as a
  multiset.  Both keep the input's columns.
\<close>

theorem split_is_partition:
  assumes "\<forall>i. 0 \<le> draw eng (seed w) i \<and> draw eng (seed w) i < 1"
  shows "\<exists>trainDf testDf A.
           splitDataframe eng df w = (Inr (trainDf, testDf), w)
         \<and> rows trainDf = nths (rows df) A
         \<and> rows testDf = nths (rows df) (- A)
         \<and> mset (rows trainDf) + mset (rows testDf) = mset (rows df)
         \<and> columns trainDf = columns df \<and> columns testDf = columns df"
proof -
  let ?d = "draw eng (seed w)"
  let ?A = "{i. ?d i < 7 / 10}"
  have a: "{i. fst (0, 7 / 10 :: real) \<le> ?d i \<and> ?d i < snd (0 :: real, 7 / 10)} = ?A"
    using assms by auto
  have b: "{i. fst (7 / 10, 1 :: real) \<le> ?d i \<and> ?d i < snd (7 / 10 :: real, 1)} = - ?A"
    using assms by (auto simp: not_less)
  have s: "splitDataframe eng df w
             = (Inr (sample ?d (0, 7 / 10) df, sample ?d (7 / 10, 1) df), w)"
    by (simp add: splitDataframe_def randomSplit_70_30)
  have r1: "rows (sample ?d (0, 7 / 10) df) = nths (rows df) ?A"
    unfolding rows_sample a ..
  have r2: "rows (sample ?d (7 / 10, 1) df) = nths (rows df) (- ?A)"
    unfolding rows_sample b ..
  show ?thesis
  proof (intro exI conjI)
    show "splitDataframe eng df w
            = (Inr (sample ?d (0, 7 / 10) df, sample ?d (7 / 10, 1) df), w)"
      by (rule s)
    show "rows (sample ?d (0, 7 / 10) df) = nths (rows df) ?A" by (rule r1)
    show "rows (sample ?d (7 / 10, 1) df) = nths (rows df) (- ?A)" by (rule r2)
    show "mset (rows (sample ?d (0, 7 / 10) df)) + mset (rows (sample ?d (7 / 10, 1) df))
            = mset (rows df)"
      unfolding r1 r2 by (rule mset_nths_partition)
  qed (simp_all add: columns_sample)
qed

text \<open>
  With the sample engine and seed 1 the draws of the three readings are 0.1, 0.8 and
  0.5.
\<close>

theorem split_is_partition_witness:
  "(\<forall>i. 0 \<le> draw sample_engine (seed first_run) i \<and> draw sample_engine (seed first_run) i < 1)
   \<and> (\<exists>trainDf testDf A.
           splitDataframe sample_engine readings first_run = (Inr (trainDf, testDf), first_run)
         \<and> rows trainDf = nths (rows readings) A
         \<and> rows testDf = nths (rows readings) (- A)
         \<and> mset (rows trainDf) + mset (rows testDf) = mset (rows readings)
         \<and> columns trainDf = columns readings \<and> columns testDf = columns readings)"
proof -
  have h: "\<forall>i. 0 \<le> draw sample_engine (seed first_run) i
              \<and> draw sample_engine (seed first_run) i < 1"
  proof
    fix i
    have "0 \<le> (1 + 7 * int i) mod 10" "(1 + 7 * int i) mod 10 < 10" by simp_all
    then show "0 \<le> draw sample_engine (seed first_run) i
              \<and> draw sample_engine (seed first_run) i < 1"
      by (simp add: sample_engine_def first_run_def)
  qed
  show ?thesis using h split_is_partition [OF h, of readings] by blast
qed

text \<open>
  C9, as stated, fails: \<open>filterTimestamp\<close> uses \<open>timestamp2\<close> and \<open>hour\<close> as working
  columns and drops them, so a dataframe that already has a column \<open>hour\<close> comes back
  without it.
\<close>

theorem filterTimestamp_frame_counterexample:
  "\<not> isl (filterTimestamp sample_engine hourly_readings)
   \<and> columns hourly_readings = [''timestamp'', ''hour'', ''temperature'']
   \<and> columns (projr (filterTimestamp sample_engine hourly_readings))
       = [''temperature'', ''month'', ''day'', ''hour_range'']
   \<and> set (columns (projr (filterTimestamp sample_engine hourly_readings)))
       \<noteq> (set (columns hourly_readings) - {''timestamp''})
           \<union> {''month'', ''day'', ''hour_range''}"
  by code_simp

text \<open>
  C9, amended.  For every dataframe with a column \<open>timestamp\<close>, \<open>filterTimestamp\<close>
  returns a dataframe with as many rows whose column set is the input's with
  \<open>timestamp\<close>, \<open>timestamp2\<close> and \<open>hour\<close> removed and \<open>month\<close>, \<open>day\<close> and
  \<open>hour_range\<close> added, and in which every column other than these six keeps the values
  it had, row by row.  For a dataframe without a column \<open>timestamp\<close> it raises.
\<close>

theorem filterTimestamp_frame:
  "(''timestamp'' \<in> set (columns df) \<longrightarrow>
      (\<exists>out. filterTimestamp eng df = Inr out
         \<and> set (columns out)
             = (set (columns df) - {''timestamp'', ''timestamp2'', ''hour''})
               \<union> {''month'', ''day'', ''hour_range''}
         \<and> length (rows out) = length (rows df)
         \<and> (\<forall>i<length (rows df). \<forall>c.
               c \<notin> {''timestamp'', ''timestamp2'', ''month'', ''day'', ''hour'', ''hour_range''}
               \<longrightarrow> (rows out ! i) c = (rows df ! i) c)))
   \<and> (''timestamp'' \<notin> set (columns df) \<longrightarrow> filterTimestamp eng df = Inl AnalysisException)"
proof (intro conjI impI)
  assume a: "''timestamp'' \<in> set (columns df)"
  obtain out where "filterTimestamp eng df = Inr out"
    "set (columns out)
       = (set (columns df) - {''timestamp'', ''timestamp2'', ''hour''})
         \<union> {''month'', ''day'', ''hour_range''}"
    "length (rows out) = length (rows df)"
    "\<forall>i<length (rows df). \<forall>c.
       c \<notin> {''timestamp'', ''timestamp2'', ''month'', ''day'', ''hour'', ''hour_range''}
       \<longrightarrow> (rows out ! i) c = (rows df ! i) c"
    using filterTimestamp_stages [OF a, of eng]
    by (elim exE conjE) (rule that, assumption+)
  then show "\<exists>out. filterTimestamp eng df = Inr out
         \<and> set (columns out)
             = (set (columns df) - {''timestamp'', ''timestamp2'', ''hour''})
               \<union> {''month'', ''day'', ''hour_range''}
         \<and> length (rows out) = length (rows df)
         \<and> (\<forall>i<length (rows df). \<forall>c.
               c \<notin> {''timestamp'', ''timestamp2'', ''month'', ''day'', ''hour'', ''hour_range''}
               \<longrightarrow> (rows out ! i) c = (rows df ! i) c)"
    by (intro exI [of _ out] conjI)
next
  assume "''timestamp'' \<notin> set (columns df)"
  then show "filterTimestamp eng df = Inl AnalysisException"
    by (rule filterTimestamp_no_timestamp)
qed

text \<open>
  On the sample readings the temperature column is kept; the result has no
  \<open>timestamp\<close>, and filtering it a second time raises.
\<close>

theorem filterTimestamp_frame_witness:
  "''timestamp'' \<in> set (columns readings)
   \<and> (\<exists>out. filterTimestamp sample_engine readings = Inr out
         \<and> set (columns out) = {''temperature'', ''humidity'', ''month'', ''day'', ''hour_range''}
         \<and> (rows out ! 0) ''temperature'' = Some (IntV 21))
   \<and> ''timestamp'' \<notin> set (columns (projr (filterTimestamp sample_engine readings)))
   \<and> filterTimestamp sample_engine (projr (filterTimestamp sample_engine readings))
       = Inl AnalysisException"
proof -
  have a: "''timestamp'' \<in> set (columns readings)" by code_simp
  obtain out where o: "filterTimestamp sample_engine readings = Inr out"
    "set (columns out)
       = (set (columns readings) - {''timestamp'', ''timestamp2'', ''hour''})
         \<union> {''month'', ''day'', ''hour_range''}"
    "\<forall>i<length (rows readings). \<forall>c.
       c \<notin> {''timestamp'', ''timestamp2'', ''month'', ''day'', ''hour'', ''hour_range''}
       \<longrightarrow> (rows out ! i) c = (rows readings ! i) c"
    using filterTimestamp_frame [of readings sample_engine, THEN conjunct1, THEN mp, OF a]
    by (elim exE conjE) (rule that, assumption+)
  have c: "set (columns readings) = {''timestamp'', ''temperature'', ''humidity''}"
    by (simp add: readings_def)
  have "set (columns out) = {''temperature'', ''humidity'', ''month'', ''day'', ''hour_range''}"
    unfolding o(2) c by auto
  moreover have "(rows out ! 0) ''temperature'' = Some (IntV 21)"
  proof -
    have "0 < length (rows readings)" by (simp add: readings_def)
    moreover have "''temperature''
        \<notin> {''timestamp'', ''timestamp2'', ''month'', ''day'', ''hour'', ''hour_range''}"
      by simp
    ultimately have "(rows out ! 0) ''temperature'' = (rows readings ! 0) ''temperature''"
      using o(3) [rule_format, of 0 "''temperature''"] by simp
    then show ?thesis by (simp add: readings_def)
  qed
  moreover have b: "''timestamp'' \<notin> set (columns (projr (filterTimestamp sample_engine readings)))"
    by code_simp
  moreover have "filterTimestamp sample_engine (projr (filterTimestamp sample_engine readings))
       = Inl AnalysisException"
    by (rule filterTimestamp_frame [of "projr (filterTimestamp sample_engine readings)"
          sample_engine, THEN conjunct2, THEN mp, OF b])
  ultimately show ?thesis using a o(1) by (intro conjI exI [of _ out])
qed

text \<open>
  C7, as stated, fails: \<open>initialize\<close> casts and fills one column of the new reading, the
  one named on the command line.  In the sample run (label \<open>temperature\<close>) the missing
  humidity of the new reading is still null afterwards, and the temperature column is
  double in the new reading while the readings keep the integers they were loaded with.
\<close>

theorem new_reading_coercion_counterexample:
  "(rows (snd (the (projr (fst (initialize sample_engine first_run))))) ! 0) ''humidity''
     = Some Null
   \<and> (rows (snd (the (projr (fst (initialize sample_engine first_run))))) ! 0) ''temperature''
     = Some (DoubleV 0)
   \<and> (rows (fst (the (projr (fst (initialize sample_engine first_run))))) ! 0) ''temperature''
     = Some (IntV 21)"
  by code_simp

text \<open>
  C7, amended.  When the context starts, both files load, and the label given on the
  command line is a column of the new reading, \<open>initialize\<close> returns the readings as
  loaded and the new reading with the same columns and rows, in which the label column
  is cast to double with its null cells replaced by 0, and every other column is as
  loaded.
\<close>

theorem new_reading_label_coercion:
  assumes "spark_context w = None" and "readings_csv w = Inr d"
    and "newReading_json w = Inr n" and "1 < length (argv w)"
    and "argv w ! 1 \<in> set (columns n)"
  shows "\<exists>nr. initialize eng w = (Inr (Some (d, nr)), w)
           \<and> columns nr = columns n \<and> length (rows nr) = length (rows n)
           \<and> (\<forall>i<length (rows n).
                 (rows nr ! i) (argv w ! 1)
                   = Some (DoubleV (case as_double eng
                                           (case (rows n ! i) (argv w ! 1) of
                                              Some v \<Rightarrow> v | None \<Rightarrow> Null)
                                    of Some x \<Rightarrow> x | None \<Rightarrow> 0))
               \<and> (\<forall>c. c \<noteq> argv w ! 1 \<longrightarrow> (rows nr ! i) c = (rows n ! i) c))"
proof (intro exI conjI)
  show "initialize eng w = (Inr (Some (d, cast_label eng (argv w ! 1) n)), w)"
    using assms by (rule initialize_ok)
  show "columns (cast_label eng (argv w ! 1) n) = columns n"
    by (simp add: cast_label_def na_fill_def)
  show "length (rows (cast_label eng (argv w ! 1) n)) = length (rows n)"
    by (simp add: cast_label_def na_fill_def)
  show "\<forall>i<length (rows n).
          (rows (cast_label eng (argv w ! 1) n) ! i) (argv w ! 1)
            = Some (DoubleV (case as_double eng
                                    (case (rows n ! i) (argv w ! 1) of
                                       Some v \<Rightarrow> v | None \<Rightarrow> Null)
                             of Some x \<Rightarrow> x | None \<Rightarrow> 0))
        \<and> (\<forall>c. c \<noteq> argv w ! 1
               \<longrightarrow> (rows (cast_label eng (argv w ! 1) n) ! i) c = (rows n ! i) c)"
    by (simp add: rows_cast_label)
qed

text \<open>
  The sample run: the missing temperature becomes 0.0, the missing humidity stays as it
  was.
\<close>

theorem new_reading_label_coercion_witness:
  "spark_context first_run = None \<and> readings_csv first_run = Inr readings
   \<and> newReading_json first_run = Inr newReading0 \<and> 1 < length (argv first_run)
   \<and> argv first_run ! 1 \<in> set (columns newReading0)
   \<and> (\<exists>nr. initialize sample_engine first_run = (Inr (Some (readings, nr)), first_run)
          \<and> columns nr = columns newReading0
          \<and> (rows nr ! 0) ''temperature'' = Some (DoubleV 0)
          \<and> (rows nr ! 0) ''humidity'' = (rows newReading0 ! 0) ''humidity'')"
proof -
  have a: "spark_context first_run = None" by (simp add: first_run_def)
  have b: "readings_csv first_run = Inr readings" by (simp add: first_run_def)
  have c: "newReading_json first_run = Inr newReading0" by (simp add: first_run_def)
  have d: "1 < length (argv first_run)" by (simp add: first_run_def)
  have l: "argv first_run ! 1 = ''temperature''" by (simp add: first_run_def)
  have e: "argv first_run ! 1 \<in> set (columns newReading0)"
    unfolding l by (simp add: newReading0_def)
  obtain nr where nr: "initialize sample_engine first_run = (Inr (Some (readings, nr)), first_run)"
    "columns nr = columns newReading0"
    "\<forall>i<length (rows newReading0).
         (rows nr ! i) (argv first_run ! 1)
           = Some (DoubleV (case as_double sample_engine
                                   (case (rows newReading0 ! i) (argv first_run ! 1) of
                                      Some v \<Rightarrow> v | None \<Rightarrow> Null)
                            of Some x \<Rightarrow> x | None \<Rightarrow> 0))
       \<and> (\<forall>c. c \<noteq> argv first_run ! 1 \<longrightarrow> (rows nr ! i) c = (rows newReading0 ! i) c)"
    using new_reading_label_coercion [OF a b c d e, of sample_engine]
    by (elim exE conjE) (rule that, assumption+)
  have z: "0 < length (rows newReading0)" by (simp add: newReading0_def)
  have t: "(rows nr ! 0) ''temperature'' = Some (DoubleV 0)"
    using nr(3) [unfolded l, rule_format, OF z, THEN conjunct1]
    by (simp add: newReading0_def as_double_def)
  have h: "(rows nr ! 0) ''humidity'' = (rows newReading0 ! 0) ''humidity''"
    using nr(3) [unfolded l, rule_format, OF z, THEN conjunct2, rule_format, of "''humidity''"]
    by simp
  show ?thesis using a b c d e nr(1,2) t h by (intro conjI exI [of _ nr])
qed

text \<open>
  C10, as stated, fails in the case it names first: with no argument on the command
  line \<open>setLabel\<close> would return \<open>None\<close>, but \<open>main\<close> calls \<open>initialize\<close> before it;
  \<open>initialize\<close> reads \<open>sys.argv[1]\<close> inside its guard, returns \<open>None\<close>, and the tuple
  unpacking in the first line of \<open>main\<close> raises \<open>TypeError\<close>.  The run never reaches
  \<open>features.remove(label)\<close>.
\<close>

theorem main_label_counterexample:
  "fst (setLabel no_label_run) = Inr None
   \<and> fst (main sample_engine no_label_run) = Inl TypeError
   \<and> fst (main sample_engine no_label_run) \<noteq> Inl ValueError"
  by code_simp

text \<open>
  C10, amended.  When the context starts: with no argument on the command line, or with
  a label that is not a column of the new reading, \<open>main\<close> raises \<open>TypeError\<close> at its
  first line; with a label that is a column of the new reading but not of the filtered
  dataframe (as \<open>timestamp\<close> never is), \<open>main\<close> raises \<open>ValueError\<close> at
  \<open>features.remove(label)\<close>.  Nothing in \<open>main\<close> catches either.
\<close>

theorem main_label_not_a_column:
  "(spark_context w = None \<longrightarrow> \<not> 1 < length (argv w) \<longrightarrow> fst (main eng w) = Inl TypeError)
   \<and> (spark_context w = None \<longrightarrow> readings_csv w = Inr d \<longrightarrow> newReading_json w = Inr n
        \<longrightarrow> 1 < length (argv w) \<longrightarrow> argv w ! 1 \<notin> set (columns n)
        \<longrightarrow> fst (main eng w) = Inl TypeError)
   \<and> (spark_context w = None \<longrightarrow> readings_csv w = Inr d \<longrightarrow> newReading_json w = Inr n
        \<longrightarrow> 1 < length (argv w) \<longrightarrow> argv w ! 1 \<in> set (columns n)
        \<longrightarrow> filterTimestamp eng d = Inr f
        \<longrightarrow> argv w ! 1 \<notin> set (columns f) \<or> argv w ! 1 = ''timestamp''
        \<longrightarrow> fst (main eng w) = Inl ValueError)"
proof (intro conjI impI)
  assume "spark_context w = None" "\<not> 1 < length (argv w)"
  then obtain s where "initialize eng w = (Inr None, w\<lparr>stdout := s\<rparr>)"
    using initialize_no_label [of w eng] by blast
  then show "fst (main eng w) = Inl TypeError" by (simp add: main_initialize_None)
next
  assume "spark_context w = None" "readings_csv w = Inr d" "newReading_json w = Inr n"
    "1 < length (argv w)" "argv w ! 1 \<notin> set (columns n)"
  then obtain s where "initialize eng w = (Inr None, w\<lparr>stdout := s\<rparr>)"
    using initialize_unknown_label [of w d n eng] by blast
  then show "fst (main eng w) = Inl TypeError" by (simp add: main_initialize_None)
next
  assume a: "spark_context w = None" "readings_csv w = Inr d" "newReading_json w = Inr n"
    "1 < length (argv w)" "argv w ! 1 \<in> set (columns n)"
    and f: "filterTimestamp eng d = Inr f"
    and l: "argv w ! 1 \<notin> set (columns f) \<or> argv w ! 1 = ''timestamp''"
  have "argv w ! 1 \<notin> set (columns f)"
    using l timestamp_not_filtered [OF f] by auto
  then show "fst (main eng w) = Inl ValueError"
    by (rule main_label_missing [OF a f])
qed

text \<open>
  The three cases on the sample inputs: no label, the label \<open>pressure\<close> (unknown to the
  new reading), the label \<open>timestamp\<close>.
\<close>

theorem main_label_not_a_column_witness:
  "spark_context no_label_run = None \<and> \<not> 1 < length (argv no_label_run)
   \<and> fst (main sample_engine no_label_run) = Inl TypeError
   \<and> readings_csv unknown_label_run = Inr readings
   \<and> argv unknown_label_run ! 1 \<notin> set (columns newReading0)
   \<and> fst (main sample_engine unknown_label_run) = Inl TypeError
   \<and> argv timestamp_label_run ! 1 \<in> set (columns newReading0)
   \<and> \<not> isl (filterTimestamp sample_engine readings)
   \<and> argv timestamp_label_run ! 1 = ''timestamp''
   \<and> fst (main sample_engine timestamp_label_run) = Inl ValueError"
proof -
  have n: "spark_context no_label_run = None" "\<not> 1 < length (argv no_label_run)"
    by (simp_all add: no_label_run_def first_run_def)
  have u: "spark_context unknown_label_run = None"
    "readings_csv unknown_label_run = Inr readings"
    "newReading_json unknown_label_run = Inr newReading0"
    "1 < length (argv unknown_label_run)"
    by (simp_all add: unknown_label_run_def first_run_def)
  have u5: "argv unknown_label_run ! 1 \<notin> set (columns newReading0)"
    by code_simp
  have t: "spark_context timestamp_label_run = None"
    "readings_csv timestamp_label_run = Inr readings"
    "newReading_json timestamp_label_run = Inr newReading0"
    "1 < length (argv timestamp_label_run)"
    by (simp_all add: timestamp_label_run_def first_run_def)
  have t5: "argv timestamp_label_run ! 1 \<in> set (columns newReading0)"
    by code_simp
  have t6: "\<not> isl (filterTimestamp sample_engine readings)" by code_simp
  then have t7: "filterTimestamp sample_engine readings
                   = Inr (projr (filterTimestamp sample_engine readings))"
    by simp
  have t8: "argv timestamp_label_run ! 1 = ''timestamp''" by code_simp
  note inst = main_label_not_a_column [where eng = sample_engine]
  have 1: "fst (main sample_engine no_label_run) = Inl TypeError"
    using inst [of no_label_run, THEN conjunct1] n by blast
  have 2: "fst (main sample_engine unknown_label_run) = Inl TypeError"
    using inst [of unknown_label_run readings newReading0, THEN conjunct2, THEN conjunct1]
      u u5 by blast
  have 3: "fst (main sample_engine timestamp_label_run) = Inl ValueError"
    using inst [of timestamp_label_run readings newReading0
        "projr (filterTimestamp sample_engine readings)", THEN conjunct2, THEN conjunct2]
      t t5 t7 t8 by blast
  show ?thesis using n u(2) u5 1 2 t5 t6 t8 3 by (intro conjI)
qed

text \<open>
  C2.  Take a run in which the context starts, both files load, the readings have
  distinct column names (as a header read by the engine has), the new reading has the
  label and a timestamp, and the label given on the command line is a column of the
  filtered dataframe.  Then \<open>main\<close> calls the vector assembler, and every call it makes
  is given as input columns the columns of the filtered dataframe with the label
  removed (\<open>features.remove(label)\<close>), so the label is never among the columns assembled
  into \<open>features\<close>.
\<close>

theorem features_exclude_label:
  assumes "spark_context w = None" and "readings_csv w = Inr d"
    and "newReading_json w = Inr n" and "1 < length (argv w)"
    and "argv w ! 1 \<in> set (columns n)" and "''timestamp'' \<in> set (columns n)"
    and "distinct (columns d)" and "filterTimestamp eng d = Inr f"
    and "argv w ! 1 \<in> set (columns f)" and "journal w = []"
  shows "Assemble (remove1 (argv w ! 1) (columns f)) \<in> set (journal (snd (main eng w)))
       \<and> (\<forall>cols. Assemble cols \<in> set (journal (snd (main eng w)))
             \<longrightarrow> cols = remove1 (argv w ! 1) (columns f) \<and> argv w ! 1 \<notin> set cols)"
proof -
  let ?l = "argv w ! 1"
  let ?fs = "remove1 ?l (columns f)"
  let ?w2 = "w\<lparr>stdout := stdout w @ [Line (''Label -> '' @ ?l)]\<rparr>"
  let ?tail = "main_tail eng (Some ?l) f (cast_label eng ?l n) ?fs"
  have m: "main eng w = ?tail ?w2"
    by (rule main_reaches_tail [OF assms(1-5) assms(8,9)])
  have run: "?tail ?w2 = (fst (main eng w), snd (main eng w))"
    by (simp add: m)
  have ts: "''timestamp'' \<in> set (columns (cast_label eng ?l n))"
    using assms(6) by (simp add: columns_cast_label)
  obtain nf where nf: "filterTimestamp eng (cast_label eng ?l n) = Inr nf"
    using filterTimestamp_stages [OF ts, of eng]
    by (elim exE conjE) (rule that, assumption+)
  have 1: "Assemble ?fs \<in> set (journal (snd (main eng w)))"
    by (rule main_tail_assembles [OF run nf])
  obtain js where js: "journal (snd (main eng w)) = journal ?w2 @ js"
    "\<forall>cols. Assemble cols \<in> set js \<longrightarrow> cols = ?fs"
    using main_tail_journal [OF run] by (elim exE conjE) (rule that, assumption+)
  have "distinct (columns f)"
    by (rule filterTimestamp_distinct [OF assms(8,7)])
  then have 2: "?l \<notin> set ?fs" by simp
  have 3: "\<forall>cols. Assemble cols \<in> set (journal (snd (main eng w))) \<longrightarrow> cols = ?fs"
    using js assms(10) by simp
  show ?thesis
  proof (intro conjI allI impI)
    show "Assemble ?fs \<in> set (journal (snd (main eng w)))" by (rule 1)
  next
    fix cols assume "Assemble cols \<in> set (journal (snd (main eng w)))"
    then show "cols = ?fs" using 3 by simp
    then show "?l \<notin> set cols" using 2 by simp
  qed
qed

text \<open>
  The sample run with label \<open>temperature\<close>: the assembler gets humidity, month, day and
  hour range.
\<close>

theorem features_exclude_label_witness:
  "spark_context first_run = None \<and> readings_csv first_run = Inr readings
   \<and> newReading_json first_run = Inr newReading0 \<and> 1 < length (argv first_run)
   \<and> argv first_run ! 1 \<in> set (columns newReading0)
   \<and> ''timestamp'' \<in> set (columns newReading0) \<and> distinct (columns readings)
   \<and> \<not> isl (filterTimestamp sample_engine readings)
   \<and> columns (projr (filterTimestamp sample_engine readings))
       = [''temperature'', ''humidity'', ''month'', ''day'', ''hour_range'']
   \<and> argv first_run ! 1 = ''temperature'' \<and> journal first_run = []
   \<and> Assemble [''humidity'', ''month'', ''day'', ''hour_range'']
       \<in> set (journal (snd (main sample_engine first_run)))
   \<and> {cols. Assemble cols \<in> set (journal (snd (main sample_engine first_run)))}
       = {[''humidity'', ''month'', ''day'', ''hour_range'']}
   \<and> ''temperature'' \<notin> set [''humidity'', ''month'', ''day'', ''hour_range'']"
proof -
  have a: "spark_context first_run = None" "readings_csv first_run = Inr readings"
    "newReading_json first_run = Inr newReading0" "1 < length (argv first_run)"
    by (simp_all add: first_run_def)
  have l: "argv first_run ! 1 = ''temperature''" by code_simp
  have b: "argv first_run ! 1 \<in> set (columns newReading0)" by code_simp
  have c: "''timestamp'' \<in> set (columns newReading0)" by code_simp
  have d: "distinct (columns readings)" by code_simp
  have e: "\<not> isl (filterTimestamp sample_engine readings)" by code_simp
  then have f: "filterTimestamp sample_engine readings
                  = Inr (projr (filterTimestamp sample_engine readings))"
    by simp
  have cols: "columns (projr (filterTimestamp sample_engine readings))
       = [''temperature'', ''humidity'', ''month'', ''day'', ''hour_range'']"
    by code_simp
  have g: "argv first_run ! 1 \<in> set (columns (projr (filterTimestamp sample_engine readings)))"
    unfolding l cols by simp
  have j: "journal first_run = []" by (simp add: first_run_def)
  have r: "remove1 ''temperature'' (columns (projr (filterTimestamp sample_engine readings)))
             = [''humidity'', ''month'', ''day'', ''hour_range'']"
    unfolding cols by simp
  note t = features_exclude_label [OF a b c d f g j, unfolded l r]
  have s: "{cols. Assemble cols \<in> set (journal (snd (main sample_engine first_run)))}
             = {[''humidity'', ''month'', ''day'', ''hour_range'']}"
    using t by blast
  have n: "''temperature'' \<notin> set [''humidity'', ''month'', ''day'', ''hour_range'']"
    by simp
  show ?thesis
    using t [THEN conjunct1] s n a b [unfolded l] c d e cols l j
    unfolding l by (intro conjI)
qed

text \<open>
  C4, as stated, fails: \<open>featureImportance\<close>, \<open>filterTimestamp\<close> and \<open>main\<close> have no
  exception handler.  Given no model, \<open>featureImportance\<close> raises \<open>AttributeError\<close>; given
  a dataframe without a timestamp, \<open>filterTimestamp\<close> raises \<open>AnalysisException\<close>;
  with no label on the command line, \<open>main\<close> raises \<open>TypeError\<close>.
\<close>

theorem guard_counterexample:
  "fst (featureImportance sample_engine None [''humidity''] first_run) = Inl AttributeError
   \<and> isl (filterTimestamp sample_engine (projr (filterTimestamp sample_engine readings)))
   \<and> projl (filterTimestamp sample_engine (projr (filterTimestamp sample_engine readings)))
       = AnalysisException
   \<and> fst (main sample_engine no_label_run) = Inl TypeError"
  by code_simp

text \<open>
  C4, amended.  A guard, where there is one, turns an exception of its body into three
  printed items (the stack trace, the exception, a static message) and the result
  \<open>None\<close>.  \<open>setLabel\<close>, \<open>decisionTreeRegression\<close> and \<open>predictAndEvaluate\<close> hold their
  whole body in one guard and never raise.  \<open>initialize\<close> starts the context before its
  guard: it raises what the context raises, and nothing else.  \<open>trainOrLoad\<close> guards each
  of its two branches, after the path is computed: it never raises for a label that is a
  string, and raises \<open>TypeError\<close> for the label \<open>None\<close>.  \<open>featureImportance\<close>,
  \<open>filterTimestamp\<close>, \<open>vectorizeDataframe\<close> and \<open>main\<close> have no guard and let exceptions
  through.
\<close>

theorem guards_where_they_are:
  "(\<forall>msg body w1 e. body w = (Inl e, w1) \<longrightarrow>
       guarded msg body w
         = (Inr None, w1\<lparr>stdout := stdout w1 @ [Traceback e, Message e, Line msg]\<rparr>))
   \<and> (\<exists>x. fst (setLabel w) = Inr x)
   \<and> (\<not> 1 < length (argv w) \<longrightarrow>
        setLabel w = (Inr None,
          w\<lparr>stdout := stdout w @ [Traceback IndexError, Message IndexError,
                Line ''Label Setting Error -> Cannot retrieve the label'']\<rparr>))
   \<and> (\<exists>x. fst (decisionTreeRegression eng l w) = Inr x)
   \<and> (\<forall>e. construct eng l = Some e \<longrightarrow>
        decisionTreeRegression eng l w = (Inr None,
          w\<lparr>stdout := stdout w @ [Traceback e, Message e,
                Line ''Model Creation Error -> Cannot perform the creation of the model'']\<rparr>))
   \<and> (\<exists>s. predictAndEvaluate eng bm l t ev n w = (Inr None, w\<lparr>stdout := s\<rparr>))
   \<and> predictAndEvaluate eng None l t ev n w = (Inr None,
        w\<lparr>stdout := stdout w @ [Traceback AttributeError, Message AttributeError,
              Line ''Model Prediction Error -> Cannot perform the prediction on the model'']\<rparr>)
   \<and> (spark_context w = None \<longrightarrow> (\<exists>x. fst (initialize eng w) = Inr x))
   \<and> (\<forall>e. spark_context w = Some e \<longrightarrow> initialize eng w = (Inl e, w))
   \<and> (\<exists>x. fst (trainOrLoad eng (Some p) cv t w) = Inr x)
   \<and> trainOrLoad eng None cv t w = (Inl TypeError, w)
   \<and> featureImportance eng None fs w
       = (Inl AttributeError, w\<lparr>stdout := stdout w @ [Line ''Feature Importances:'']\<rparr>)
   \<and> (''timestamp'' \<notin> set (columns df) \<longrightarrow> filterTimestamp eng df = Inl AnalysisException)
   \<and> (\<not> set fs \<subseteq> set (columns df) \<longrightarrow>
        fst (vectorizeDataframe df fs w) = Inl IllegalArgumentException)
   \<and> (\<forall>w1. initialize eng w = (Inr None, w1) \<longrightarrow> main eng w = (Inl TypeError, w1))"
proof (intro conjI allI impI)
  show "\<exists>x. fst (setLabel w) = Inr x"
    unfolding setLabel_def by (rule guarded_never_raises)
  show "\<exists>x. fst (decisionTreeRegression eng l w) = Inr x"
    unfolding decisionTreeRegression_def by (rule guarded_never_raises)
  show "\<exists>s. predictAndEvaluate eng bm l t ev n w = (Inr None, w\<lparr>stdout := s\<rparr>)"
    by (rule predictAndEvaluate_result)
  show "\<exists>x. fst (trainOrLoad eng (Some p) cv t w) = Inr x"
    by (rule trainOrLoad_guarded)
qed (simp_all add: guarded_Inl setLabel_fail decisionTreeRegression_fail
    predictAndEvaluate_None initialize_guarded initialize_context_fails trainOrLoad_None
    featureImportance_None filterTimestamp_no_timestamp vectorizeDataframe_missing
    main_initialize_None)

text \<open>
  Each case on a sample input: no label for \<open>setLabel\<close>, an engine that cannot build the
  estimator, a context that starts and one that does not, a dataframe without a
  timestamp, a feature the readings lack, and \<open>main\<close> after a failed \<open>initialize\<close>.
\<close>

theorem guards_where_they_are_witness:
  "\<not> 1 < length (argv no_label_run)
   \<and> setLabel no_label_run = (Inr None,
        no_label_run\<lparr>stdout := stdout no_label_run @ [Traceback IndexError, Message IndexError,
              Line ''Label Setting Error -> Cannot retrieve the label'']\<rparr>)
   \<and> construct no_estimator_engine (Some ''temperature'') = Some (EngineFailure ''no gateway'')
   \<and> decisionTreeRegression no_estimator_engine (Some ''temperature'') first_run
       = (Inr None, first_run\<lparr>stdout := stdout first_run @ [Traceback (EngineFailure ''no gateway''),
            Message (EngineFailure ''no gateway''),
            Line ''Model Creation Error -> Cannot perform the creation of the model'']\<rparr>)
   \<and> spark_context first_run = None
   \<and> (\<exists>x. fst (initialize sample_engine first_run) = Inr x)
   \<and> spark_context no_context_run = Some (EngineFailure ''no JVM'')
   \<and> initialize sample_engine no_context_run = (Inl (EngineFailure ''no JVM''), no_context_run)
   \<and> ''timestamp'' \<notin> set (columns (projr (filterTimestamp sample_engine readings)))
   \<and> filterTimestamp sample_engine (projr (filterTimestamp sample_engine readings))
       = Inl AnalysisException
   \<and> \<not> set [''pressure''] \<subseteq> set (columns readings)
   \<and> fst (vectorizeDataframe readings [''pressure''] first_run) = Inl IllegalArgumentException
   \<and> fst (initialize sample_engine no_label_run) = Inr None
   \<and> fst (main sample_engine no_label_run) = Inl TypeError"
proof -
  have a: "\<not> 1 < length (argv no_label_run)"
    by (simp add: no_label_run_def first_run_def)
  have b: "construct no_estimator_engine (Some ''temperature'')
             = Some (EngineFailure ''no gateway'')"
    by (simp add: no_estimator_engine_def)
  have c: "spark_context first_run = None" by (simp add: first_run_def)
  have d: "spark_context no_context_run = Some (EngineFailure ''no JVM'')"
    by (simp add: no_context_run_def)
  have e: "''timestamp'' \<notin> set (columns (projr (filterTimestamp sample_engine readings)))"
    by code_simp
  have f: "\<not> set [''pressure''] \<subseteq> set (columns readings)"
    by (simp add: readings_def)
  have "spark_context no_label_run = None"
    by (simp add: no_label_run_def first_run_def)
  then obtain s where s: "initialize sample_engine no_label_run
                            = (Inr None, no_label_run\<lparr>stdout := s\<rparr>)"
    using initialize_no_label [OF _ a, of sample_engine] by blast
  then have g: "fst (initialize sample_engine no_label_run) = Inr None" by simp
  have g': "initialize sample_engine no_label_run
              = (Inr None, snd (initialize sample_engine no_label_run))"
    using s by simp
  note i1 = guards_where_they_are [where w = no_label_run and eng = sample_engine]
  note i2 = guards_where_they_are [where w = first_run and eng = no_estimator_engine
      and l = "Some ''temperature''"]
  note i3 = guards_where_they_are [where w = first_run and eng = sample_engine
      and df = "projr (filterTimestamp sample_engine readings)" and fs = "[''pressure'']"]
  note i4 = guards_where_they_are [where w = no_context_run and eng = sample_engine]
  note i5 = guards_where_they_are [where w = first_run and eng = sample_engine
      and df = readings and fs = "[''pressure'']"]
  have 1: "setLabel no_label_run = (Inr None,
        no_label_run\<lparr>stdout := stdout no_label_run @ [Traceback IndexError, Message IndexError,
              Line ''Label Setting Error -> Cannot retrieve the label'']\<rparr>)"
    using i1 a by blast
  have 2: "decisionTreeRegression no_estimator_engine (Some ''temperature'') first_run
       = (Inr None, first_run\<lparr>stdout := stdout first_run @ [Traceback (EngineFailure ''no gateway''),
            Message (EngineFailure ''no gateway''),
            Line ''Model Creation Error -> Cannot perform the creation of the model'']\<rparr>)"
    using i2 b by blast
  have 3: "\<exists>x. fst (initialize sample_engine first_run) = Inr x"
    using i3 c by blast
  have 4: "initialize sample_engine no_context_run
             = (Inl (EngineFailure ''no JVM''), no_context_run)"
    using i4 d by blast
  have 5: "filterTimestamp sample_engine (projr (filterTimestamp sample_engine readings))
             = Inl AnalysisException"
    using i3 e by blast
  have 6: "fst (vectorizeDataframe readings [''pressure''] first_run)
             = Inl IllegalArgumentException"
    using i5 f by blast
  have 7: "fst (main sample_engine no_label_run) = Inl TypeError"
    using i1 g' by (metis fst_conv)
  show ?thesis using a 1 b 2 c 3 d 4 e 5 f 6 g 7 by (intro conjI)
qed




text \<open>
  C6, as stated, fails: that nothing is stored at the path does not suffice for the
  model to be saved.  With an engine whose training fails and an empty store,
  \<open>trainOrLoad\<close> calls the trainer, its guard catches the failure, nothing is saved, the
  result is \<open>None\<close> and the path is still absent.
\<close>

theorem train_without_save_counterexample:
  "model_path ''temperature'' \<notin> dom (trained_models first_run)
   \<and> fst (trainOrLoad untrainable_engine (Some ''temperature'') sample_cv readings first_run)
       = Inr None
   \<and> journal (snd (trainOrLoad untrainable_engine (Some ''temperature'') sample_cv readings
                     first_run)) = [Fit]
   \<and> Save (model_path ''temperature'')
       \<notin> set (journal (snd (trainOrLoad untrainable_engine (Some ''temperature'') sample_cv
                               readings first_run)))
   \<and> model_path ''temperature''
       \<notin> dom (trained_models (snd (trainOrLoad untrainable_engine (Some ''temperature'')
                                       sample_cv readings first_run)))"
proof -
  note absent = first_run_store [of "''temperature''"]
  have f: "fit untrainable_engine sample_cv readings = Inl (EngineFailure ''training failed'')"
    by (simp add: untrainable_engine_def)
  have j: "journal first_run = []" by (simp add: first_run_def)
  show ?thesis
    using absent by (simp add: trainOrLoad_fit_fails [OF absent f] j)
qed

text \<open>
  C6, amended.  \<open>trainOrLoad\<close> calls the trainer if and only if no artifact is stored
  at the label's path.  It attempts the save if and only if, in addition, the training
  succeeds; when the write succeeds too, it returns the trained model and the store
  holds that model's artifact at the path; when the training or the write fails, it
  returns \<open>None\<close> and leaves the store as it was.  When an artifact is stored at the
  path, it neither trains nor saves: it loads, leaves the store as it is, and returns
  what loading that artifact gives.  No path that holds an artifact is changed, and the
  label's path holds one afterwards exactly when it did before or the training and the
  write succeeded: a label's artifact is absent, then trained and saved, then only
  loaded.
\<close>

theorem trainOrLoad_lifecycle:
  assumes "trainOrLoad eng (Some l) dtcv trainDf w = (r, w')"
  shows "\<exists>js. journal w' = journal w @ js
      \<and> (Fit \<in> set js \<longleftrightarrow> model_path l \<notin> dom (trained_models w))
      \<and> (Save (model_path l) \<in> set js
            \<longleftrightarrow> model_path l \<notin> dom (trained_models w) \<and> \<not> isl (fit eng dtcv trainDf))
      \<and> (Load (model_path l) \<in> set js \<longleftrightarrow> model_path l \<in> dom (trained_models w))
      \<and> (model_path l \<notin> dom (trained_models w) \<longrightarrow>
           (case fit eng dtcv trainDf of
              Inl e \<Rightarrow> r = Inr None \<and> trained_models w' = trained_models w
            | Inr m \<Rightarrow>
                (case write_model eng m of
                   Inl e \<Rightarrow> r = Inr None \<and> trained_models w' = trained_models w
                 | Inr a \<Rightarrow> r = Inr (Some m)
                     \<and> trained_models w' = (trained_models w)(model_path l \<mapsto> a))))
      \<and> (model_path l \<in> dom (trained_models w)
            \<longrightarrow> trained_models w' = trained_models w
              \<and> r = (case read_model eng (the (trained_models w (model_path l))) of
                       Inl e \<Rightarrow> Inr None | Inr m' \<Rightarrow> Inr (Some m')))
      \<and> (\<forall>p. p \<in> dom (trained_models w) \<longrightarrow> trained_models w' p = trained_models w p)
      \<and> (model_path l \<in> dom (trained_models w')
            \<longleftrightarrow> model_path l \<in> dom (trained_models w)
              \<or> (\<exists>m a. fit eng dtcv trainDf = Inr m \<and> write_model eng m = Inr a))"
proof (cases "trained_models w (model_path l)")
  case None
  then have absent: "model_path l \<notin> dom (trained_models w)" by auto
  show ?thesis
  proof (cases "fit eng dtcv trainDf")
    case (Inl e)
    have "trainOrLoad eng (Some l) dtcv trainDf w
       = (Inr None, w\<lparr>stdout := stdout w @ [Traceback e, Message e,
            Line ''Model Training Error -> Cannot perform the training of the model''],
            journal := journal w @ [Fit]\<rparr>)"
      by (rule trainOrLoad_fit_fails [OF absent Inl])
    with assms have "r = Inr None"
      "w' = w\<lparr>stdout := stdout w @ [Traceback e, Message e,
            Line ''Model Training Error -> Cannot perform the training of the model''],
            journal := journal w @ [Fit]\<rparr>"
      by simp_all
    then show ?thesis using absent Inl
      by (intro exI [of _ "[Fit]"]) simp
  next
    case m: (Inr m)
    show ?thesis
    proof (cases "write_model eng m")
      case (Inl e)
      have "trainOrLoad eng (Some l) dtcv trainDf w
         = (Inr None, w\<lparr>stdout := stdout w @ [Traceback e, Message e,
              Line ''Model Training Error -> Cannot perform the training of the model''],
              journal := journal w @ [Fit, Save (model_path l)]\<rparr>)"
        by (rule trainOrLoad_write_fails [OF absent m Inl])
      with assms have "r = Inr None"
        "w' = w\<lparr>stdout := stdout w @ [Traceback e, Message e,
              Line ''Model Training Error -> Cannot perform the training of the model''],
              journal := journal w @ [Fit, Save (model_path l)]\<rparr>"
        by simp_all
      then show ?thesis using absent m Inl
        by (intro exI [of _ "[Fit, Save (model_path l)]"]) simp
    next
      case a: (Inr a)
      have "trainOrLoad eng (Some l) dtcv trainDf w
         = (Inr (Some m), w\<lparr>trained_models := (trained_models w)(model_path l \<mapsto> a),
              stdout := stdout w @ [Line ''Model Saved''],
              journal := journal w @ [Fit, Save (model_path l)]\<rparr>)"
        by (rule trainOrLoad_trains [OF absent m a])
      with assms have "r = Inr (Some m)"
        "w' = w\<lparr>trained_models := (trained_models w)(model_path l \<mapsto> a),
              stdout := stdout w @ [Line ''Model Saved''],
              journal := journal w @ [Fit, Save (model_path l)]\<rparr>"
        by simp_all
      then show ?thesis using absent m a
        by (intro exI [of _ "[Fit, Save (model_path l)]"]) auto
    qed
  qed
next
  case (Some b)
  then have present: "model_path l \<in> dom (trained_models w)" by auto
  show ?thesis
  proof (cases "read_model eng b")
    case (Inl e)
    have "trainOrLoad eng (Some l) dtcv trainDf w
       = (Inr None, w\<lparr>stdout := stdout w @ [Traceback e, Message e,
            Line ''Model Creation Error -> Cannot perform the creation of the model''],
            journal := journal w @ [Load (model_path l)]\<rparr>)"
      by (rule trainOrLoad_load_fails [OF Some Inl])
    with assms have "r = Inr None"
      "w' = w\<lparr>stdout := stdout w @ [Traceback e, Message e,
            Line ''Model Creation Error -> Cannot perform the creation of the model''],
            journal := journal w @ [Load (model_path l)]\<rparr>"
      by simp_all
    then show ?thesis using present Some Inl
      by (intro exI [of _ "[Load (model_path l)]"]) simp
  next
    case (Inr m')
    have "trainOrLoad eng (Some l) dtcv trainDf w
       = (Inr (Some m'), w\<lparr>stdout := stdout w @ [Line ''Model Loaded''],
            journal := journal w @ [Load (model_path l)]\<rparr>)"
      by (rule trainOrLoad_loads [OF Some Inr])
    with assms have "r = Inr (Some m')"
      "w' = w\<lparr>stdout := stdout w @ [Line ''Model Loaded''],
            journal := journal w @ [Load (model_path l)]\<rparr>"
      by simp_all
    then show ?thesis using present Some Inr
      by (intro exI [of _ "[Load (model_path l)]"]) simp
  qed
qed

text \<open>
  The first sample run (nothing is stored: the tree 3 is trained and saved under the
  path of \<open>temperature\<close>) and a later run (the artifact is loaded, with no training and no
  save).
\<close>

theorem trainOrLoad_lifecycle_witness:
  "fit sample_engine sample_cv readings = Inr 3
   \<and> write_model sample_engine 3 = Inr (''tree'', 3)
   \<and> model_path ''temperature'' \<notin> dom (trained_models first_run)
   \<and> fst (trainOrLoad sample_engine (Some ''temperature'') sample_cv readings first_run)
       = Inr (Some 3)
   \<and> trained_models
        (snd (trainOrLoad sample_engine (Some ''temperature'') sample_cv readings first_run))
       = [model_path ''temperature'' \<mapsto> (''tree'', 3)]
   \<and> (\<exists>js. journal (snd (trainOrLoad sample_engine (Some ''temperature'') sample_cv readings
               first_run)) = journal first_run @ js
          \<and> Fit \<in> set js \<and> Save (model_path ''temperature'') \<in> set js
          \<and> Load (model_path ''temperature'') \<notin> set js)
   \<and> model_path ''temperature'' \<in> dom (trained_models second_run)
   \<and> trained_models
        (snd (trainOrLoad sample_engine (Some ''temperature'') sample_cv readings second_run))
       = trained_models second_run
   \<and> fst (trainOrLoad sample_engine (Some ''temperature'') sample_cv readings second_run)
       = Inr (Some 3)
   \<and> (\<exists>js. journal (snd (trainOrLoad sample_engine (Some ''temperature'') sample_cv readings
               second_run)) = journal second_run @ js
          \<and> Fit \<notin> set js \<and> Save (model_path ''temperature'') \<notin> set js
          \<and> Load (model_path ''temperature'') \<in> set js)"
proof -
  let ?run = "trainOrLoad sample_engine (Some ''temperature'') sample_cv readings first_run"
  let ?run2 = "trainOrLoad sample_engine (Some ''temperature'') sample_cv readings second_run"
  have run: "?run = (fst ?run, snd ?run)" by simp
  have run2: "?run2 = (fst ?run2, snd ?run2)" by simp
  note absent = first_run_store [of "''temperature''"]
  have present: "model_path ''temperature'' \<in> dom (trained_models second_run)"
    by (simp add: second_run_def)
  have stored: "the (trained_models second_run (model_path ''temperature'')) = (''tree'', 3)"
    by (simp add: second_run_def)
  have rd: "read_model sample_engine (''tree'', 3) = Inr 3"
    by (simp add: sample_engine_def)
  have nf: "\<not> isl (fit sample_engine sample_cv readings)" by (simp add: sample_fit)
  obtain js where js: "journal (snd ?run) = journal first_run @ js"
    "Fit \<in> set js \<longleftrightarrow> model_path ''temperature'' \<notin> dom (trained_models first_run)"
    "Save (model_path ''temperature'') \<in> set js
       \<longleftrightarrow> model_path ''temperature'' \<notin> dom (trained_models first_run)
         \<and> \<not> isl (fit sample_engine sample_cv readings)"
    "Load (model_path ''temperature'') \<in> set js
       \<longleftrightarrow> model_path ''temperature'' \<in> dom (trained_models first_run)"
    "model_path ''temperature'' \<notin> dom (trained_models first_run) \<longrightarrow>
       (case fit sample_engine sample_cv readings of
          Inl e \<Rightarrow> fst ?run = Inr None \<and> trained_models (snd ?run) = trained_models first_run
        | Inr m \<Rightarrow>
            (case write_model sample_engine m of
               Inl e \<Rightarrow> fst ?run = Inr None
                 \<and> trained_models (snd ?run) = trained_models first_run
             | Inr a \<Rightarrow> fst ?run = Inr (Some m)
                 \<and> trained_models (snd ?run)
                     = (trained_models first_run)(model_path ''temperature'' \<mapsto> a)))"
    using trainOrLoad_lifecycle [OF run]
    by (elim exE conjE) (rule that, assumption+)
  obtain ks where ks: "journal (snd ?run2) = journal second_run @ ks"
    "Fit \<in> set ks \<longleftrightarrow> model_path ''temperature'' \<notin> dom (trained_models second_run)"
    "Save (model_path ''temperature'') \<in> set ks
       \<longleftrightarrow> model_path ''temperature'' \<notin> dom (trained_models second_run)
         \<and> \<not> isl (fit sample_engine sample_cv readings)"
    "Load (model_path ''temperature'') \<in> set ks
       \<longleftrightarrow> model_path ''temperature'' \<in> dom (trained_models second_run)"
    "model_path ''temperature'' \<in> dom (trained_models second_run)
       \<longrightarrow> trained_models (snd ?run2) = trained_models second_run
         \<and> fst ?run2 = (case read_model sample_engine
                                 (the (trained_models second_run (model_path ''temperature''))) of
                          Inl e \<Rightarrow> Inr None | Inr m' \<Rightarrow> Inr (Some m'))"
    using trainOrLoad_lifecycle [OF run2]
    by (elim exE conjE) (rule that, assumption+)
  have s: "trained_models first_run = Map.empty" by (simp add: first_run_def)
  have 1: "fst ?run = Inr (Some 3)"
    "trained_models (snd ?run) = [model_path ''temperature'' \<mapsto> (''tree'', 3)]"
    using js(5) [rule_format, OF absent] by (simp_all add: sample_fit sample_write s)
  have 2: "\<exists>js. journal (snd ?run) = journal first_run @ js
          \<and> Fit \<in> set js \<and> Save (model_path ''temperature'') \<in> set js
          \<and> Load (model_path ''temperature'') \<notin> set js"
    using js(1-4) absent nf by (intro exI [of _ js]) simp
  have 3: "trained_models (snd ?run2) = trained_models second_run"
    "fst ?run2 = Inr (Some 3)"
    using ks(5) [rule_format, OF present] by (simp_all add: stored rd)
  have 4: "\<exists>js. journal (snd ?run2) = journal second_run @ js
          \<and> Fit \<notin> set js \<and> Save (model_path ''temperature'') \<notin> set js
          \<and> Load (model_path ''temperature'') \<in> set js"
    using ks(1-4) present by (intro exI [of _ ks]) simp
  show ?thesis
    using sample_fit sample_write absent 1 2 present 3 4 by (intro conjI)
qed

text \<open>
  C3.  With the library's store (\<open>spark_ml\<close>): if a run of \<open>trainOrLoad\<close> that found no
  artifact returned the model \<open>m\<close>, then it saved \<open>m\<close> at the label's path, and any later
  run for the same label, in a world whose store still holds what that run left at the
  path, loads a model (whatever cross-validator and training data it is given) that
  predicts, on every feature vector and so on every row of every dataframe, what \<open>m\<close>
  predicts.
\<close>

theorem reload_predicts_the_same:
  assumes "model_path l \<notin> dom (trained_models w)"
    and "trainOrLoad (spark_ml eng) (Some l) dtcv trainDf w = (Inr (Some m), w1)"
    and "trained_models w2 (model_path l) = trained_models w1 (model_path l)"
  shows "trained_models w1 (model_path l) = Some (saveImpl m)
       \<and> (\<exists>m' w3. trainOrLoad (spark_ml eng) (Some l) dtcv2 trainDf2 w2 = (Inr (Some m'), w3)
              \<and> journal w3 = journal w2 @ [Load (model_path l)]
              \<and> (\<forall>v. predict (spark_ml eng) m' v = predict (spark_ml eng) m v)
              \<and> (\<forall>df. transform (spark_ml eng) m' df = transform (spark_ml eng) m df))"
proof -
  obtain a where a: "write_model (spark_ml eng) m = Inr a"
    "trained_models w1 = (trained_models w)(model_path l \<mapsto> a)"
    using trainOrLoad_absent [OF assms(1,2)] by (elim exE conjE) (rule that)
  have "write_model (spark_ml eng) m = Inr (saveImpl m)" by (simp add: spark_ml_def)
  with a(1) have sv: "a = saveImpl m" by simp
  have stored1: "trained_models w1 (model_path l) = Some (saveImpl m)"
    using a(2) sv by simp
  then have stored: "trained_models w2 (model_path l) = Some (saveImpl m)"
    using assms(3) by simp
  have rd: "read_model (spark_ml eng) (saveImpl m) = Inr m"
    by (simp add: spark_ml_def load_saveImpl)
  have "trainOrLoad (spark_ml eng) (Some l) dtcv2 trainDf2 w2
     = (Inr (Some m), w2\<lparr>stdout := stdout w2 @ [Line ''Model Loaded''],
          journal := journal w2 @ [Load (model_path l)]\<rparr>)"
    by (rule trainOrLoad_loads [OF stored rd])
  then show ?thesis using stored1 by simp
qed

text \<open>
  The sample tree: its table has the rows 0, 1 and 2; the second call is given other
  training data and returns a model predicting as the first, 20.5 for a humidity of 40
  and 19 for a humidity of 45.
\<close>

theorem reload_predicts_the_same_witness:
  "model_path ''temperature'' \<notin> dom (trained_models first_tree_run)
   \<and> fst (trainOrLoad (spark_ml stump_engine) (Some ''temperature'') sample_cv readings
            first_tree_run) = Inr (Some stump)
   \<and> map nodeId (data (saveImpl stump)) = [0, 1, 2]
   \<and> map leftChild (data (saveImpl stump)) = [1, - 1, - 1]
   \<and> map rightChild (data (saveImpl stump)) = [2, - 1, - 1]
   \<and> trained_models
        (snd (trainOrLoad (spark_ml stump_engine) (Some ''temperature'') sample_cv readings
                first_tree_run)) (model_path ''temperature'') = Some (saveImpl stump)
   \<and> (\<exists>m' w3. trainOrLoad (spark_ml stump_engine) (Some ''temperature'') sample_cv
                 hourly_readings
                 (snd (trainOrLoad (spark_ml stump_engine) (Some ''temperature'') sample_cv
                         readings first_tree_run))
               = (Inr (Some m'), w3)
          \<and> (\<forall>v. predict (spark_ml stump_engine) m' v = predict (spark_ml stump_engine) stump v))
   \<and> predict (spark_ml stump_engine) stump (VecV [DoubleV 40, IntV 11, IntV 14, IntV 7])
       = 41 / 2
   \<and> predict (spark_ml stump_engine) stump (VecV [DoubleV 45, IntV 11, IntV 15, IntV 0])
       = 19"
proof -
  let ?eng = "spark_ml stump_engine"
  let ?run = "trainOrLoad ?eng (Some ''temperature'') sample_cv readings first_tree_run"
  have absent: "model_path ''temperature'' \<notin> dom (trained_models first_tree_run)"
    by (simp add: first_tree_run_def)
  have f: "fit ?eng sample_cv readings = Inr stump"
    by (simp add: spark_ml_def stump_engine_def)
  have wr: "write_model ?eng stump = Inr (saveImpl stump)"
    by (simp add: spark_ml_def)
  have r: "fst ?run = Inr (Some stump)"
    by (simp add: trainOrLoad_trains [OF absent f wr])
  then have run: "?run = (Inr (Some stump), snd ?run)"
    by (metis prod.collapse)
  note t = reload_predicts_the_same [OF absent run refl,
      where ?dtcv2.0 = sample_cv and ?trainDf2.0 = hourly_readings]
  have 1: "trained_models (snd ?run) (model_path ''temperature'') = Some (saveImpl stump)"
    by (rule t [THEN conjunct1])
  have 2: "\<exists>m' w3. trainOrLoad ?eng (Some ''temperature'') sample_cv hourly_readings (snd ?run)
               = (Inr (Some m'), w3)
          \<and> (\<forall>v. predict ?eng m' v = predict ?eng stump v)"
    using t [THEN conjunct2] by (elim exE conjE) (intro exI conjI, assumption+)
  have 3: "map nodeId (data (saveImpl stump)) = [0, 1, 2]"
    "map leftChild (data (saveImpl stump)) = [1, - 1, - 1]"
    "map rightChild (data (saveImpl stump)) = [2, - 1, - 1]"
    by (simp_all add: saveImpl_def stump_def)
  have 4: "predict ?eng stump (VecV [DoubleV 40, IntV 11, IntV 14, IntV 7]) = 41 / 2"
    "predict ?eng stump (VecV [DoubleV 45, IntV 11, IntV 15, IntV 0]) = 19"
    by (simp_all add: spark_ml_def predict_model_def stump_def)
  show ?thesis using absent r 3 1 2 4 by (intro conjI)
qed

end
